theory Spec2Isabelle
  imports Main "HOL-Library.Word"
begin

section \<open>MiniRun container runtime: a model of \<^verbatim>\<open>src/container_runtime.c\<close>\<close>

text \<open>
  The program is a sequence of libc and kernel calls whose outcomes decide its control
  flow. The model threads an explicit \<open>host\<close> state through every call: the paths that
  exist, the last string that reached each file, the programs installed under each root
  directory, and the log of calls made so far with their results. Whatever the kernel may
  refuse for reasons outside this state (missing privilege, a busy group, exhausted
  memory, an I/O error) is a parameter of the host, \<open>fault\<close>, asked at every call.
  Text printed on the standard streams is left out.
\<close>

subsection \<open>C integers and strings\<close>

type_synonym c_int = "32 word"
type_synonym c_long = "64 word"

text \<open>\<^verbatim>\<open>snprintf(buf, size, ...)\<close> keeps at most \<open>size - 1\<close> characters of the text.\<close>

definition snprintf :: "nat \<Rightarrow> string \<Rightarrow> string" where
  "snprintf n s = take (n - 1) s"

fun dec :: "nat \<Rightarrow> string" where
  "dec n = (if n < 10 then [''0123456789'' ! n]
            else dec (n div 10) @ [''0123456789'' ! (n mod 10)])"

declare dec.simps [simp del]

definition show_int :: "int \<Rightarrow> string" where
  "show_int i = (if i < 0 then CHR ''-'' # dec (nat (- i)) else dec (nat i))"

text \<open>The conversions \<^verbatim>\<open>%ld\<close> and \<^verbatim>\<open>%d\<close>.\<close>

definition fmt_ld :: "c_long \<Rightarrow> string" where
  "fmt_ld x = show_int (sint x)"

definition fmt_d :: "c_int \<Rightarrow> string" where
  "fmt_d x = show_int (sint x)"

subsection \<open>The host\<close>

datatype errno = EPERM | ENOENT | EIO | ENOMEM | EACCES | EBUSY | EEXIST | ENOTDIR
  | EINVAL | ENOTEMPTY | ESTALE

datatype syscall =
    Access string
  | Mkdir string
  | Rmdir string
  | Fopen string
  | Fprintf string string
  | Fclose string
  | Malloc nat
  | Free
  | Clone
  | Waitpid int
  | Chroot string
  | Chdir string
  | Mount string string string
  | Execl string "string list"
  | Exit int

datatype ret = Ok int | Err errno

text \<open>What the process image started by a successful \<^verbatim>\<open>execl\<close> does.\<close>

datatype run = Terminates int | RunsForever

record host =
  paths :: "string set"
  written :: "string \<rightharpoonup> string"
  programs :: "string \<Rightarrow> string \<Rightarrow> (string list \<Rightarrow> run) option"
  fault :: "nat \<Rightarrow> syscall \<Rightarrow> errno option"
  next_pid :: nat
  trace :: "(syscall \<times> ret) list"

text \<open>The per-process part of the kernel state: what \<^verbatim>\<open>getpid\<close> answers, the root
  directory and the working directory.\<close>

record proc =
  pid :: c_int
  root :: string
  cwd :: string

definition retval :: "ret \<Rightarrow> int" where
  "retval r = (case r of Ok v \<Rightarrow> v | Err e \<Rightarrow> - 1)"

definition log :: "syscall \<Rightarrow> ret \<Rightarrow> host \<Rightarrow> host" where
  "log c r h = h\<lparr>trace := trace h @ [(c, r)]\<rparr>"

text \<open>One call: the host may refuse it outright; otherwise its effect on the modelled
  state decides. The call and its result are appended to the log.\<close>

definition step :: "syscall \<Rightarrow> (host \<Rightarrow> errno + int \<times> host) \<Rightarrow> host \<Rightarrow> ret \<times> host" where
  "step c eff h =
     (case fault h (length (trace h)) c of
        Some e \<Rightarrow> (Err e, log c (Err e) h)
      | None \<Rightarrow>
          (case eff h of
             Inl e \<Rightarrow> (Err e, log c (Err e) h)
           | Inr (v, h') \<Rightarrow> (Ok v, log c (Ok v) h')))"

definition sys_access :: "string \<Rightarrow> host \<Rightarrow> ret \<times> host" where
  "sys_access p = step (Access p) (\<lambda>h. if p \<in> paths h then Inr (0, h) else Inl ENOENT)"

definition sys_mkdir :: "string \<Rightarrow> host \<Rightarrow> ret \<times> host" where
  "sys_mkdir p =
     step (Mkdir p) (\<lambda>h. if p \<in> paths h then Inl EEXIST
                          else Inr (0, h\<lparr>paths := insert p (paths h)\<rparr>))"

definition sys_rmdir :: "string \<Rightarrow> host \<Rightarrow> ret \<times> host" where
  "sys_rmdir p =
     step (Rmdir p) (\<lambda>h. if p \<in> paths h then Inr (0, h\<lparr>paths := paths h - {p}\<rparr>)
                          else Inl ENOENT)"

text \<open>\<^verbatim>\<open>fopen(path, "w")\<close>: the file exists afterwards. The stream it returns is
  buffered: \<^verbatim>\<open>fprintf\<close> puts the text into the buffer of the stream, in the memory of
  the process, and returns the number of characters; the text reaches the file only when
  \<^verbatim>\<open>fclose\<close> flushes the buffer. A host that refuses the \<^verbatim>\<open>fclose\<close> has
  rejected that write, and the file does not get the text. \<open>buffered r v\<close> is what the
  buffer holds after an \<^verbatim>\<open>fprintf\<close> of \<open>v\<close> that returned \<open>r\<close>.\<close>

definition sys_fopen :: "string \<Rightarrow> host \<Rightarrow> ret \<times> host" where
  "sys_fopen p = step (Fopen p) (\<lambda>h. Inr (1, h\<lparr>paths := insert p (paths h)\<rparr>))"

definition sys_fprintf :: "string \<Rightarrow> string \<Rightarrow> host \<Rightarrow> ret \<times> host" where
  "sys_fprintf p v = step (Fprintf p v) (\<lambda>h. Inr (int (length v), h))"

definition buffered :: "ret \<Rightarrow> string \<Rightarrow> string" where
  "buffered r v = (if retval r < 0 then [] else v)"

definition sys_fclose :: "string \<Rightarrow> string \<Rightarrow> host \<Rightarrow> ret \<times> host" where
  "sys_fclose p buf =
     step (Fclose p)
       (\<lambda>h. Inr (0, if buf = [] then h else h\<lparr>written := (written h)(p \<mapsto> buf)\<rparr>))"

definition sys_malloc :: "nat \<Rightarrow> host \<Rightarrow> ret \<times> host" where
  "sys_malloc n = step (Malloc n) (\<lambda>h. Inr (1, h))"

definition sys_free :: "host \<Rightarrow> host" where
  "sys_free h = log Free (Ok 0) h"

text \<open>\<^verbatim>\<open>clone\<close> answers the host-visible id of the new process, a positive number.\<close>

definition sys_clone :: "host \<Rightarrow> ret \<times> host" where
  "sys_clone =
     step Clone (\<lambda>h. Inr (1 + int (next_pid h), h\<lparr>next_pid := Suc (next_pid h)\<rparr>))"

definition sys_waitpid :: "int \<Rightarrow> host \<Rightarrow> ret \<times> host" where
  "sys_waitpid p = step (Waitpid p) (\<lambda>h. Inr (p, h))"

definition sys_chroot :: "string \<Rightarrow> proc \<Rightarrow> host \<Rightarrow> ret \<times> proc \<times> host" where
  "sys_chroot p pr h =
     (case step (Chroot p) (\<lambda>h. if p \<in> paths h then Inr (0, h) else Inl ENOENT) h of
        (Ok v, h') \<Rightarrow> (Ok v, pr\<lparr>root := p\<rparr>, h')
      | (Err e, h') \<Rightarrow> (Err e, pr, h'))"

definition sys_chdir :: "string \<Rightarrow> proc \<Rightarrow> host \<Rightarrow> ret \<times> proc \<times> host" where
  "sys_chdir p pr h =
     (case step (Chdir p) (\<lambda>h. Inr (0, h)) h of
        (Ok v, h') \<Rightarrow> (Ok v, pr\<lparr>cwd := p\<rparr>, h')
      | (Err e, h') \<Rightarrow> (Err e, pr, h'))"

definition sys_mount :: "string \<Rightarrow> string \<Rightarrow> string \<Rightarrow> host \<Rightarrow> ret \<times> host" where
  "sys_mount src tgt fs = step (Mount src tgt fs) (\<lambda>h. Inr (0, h))"

text \<open>\<^verbatim>\<open>execl\<close> with an absolute path looks the program up under the root directory of the
  calling process. It returns only when it fails (\<open>None\<close>); otherwise the new image runs.\<close>

definition sys_execl :: "string \<Rightarrow> string list \<Rightarrow> proc \<Rightarrow> host \<Rightarrow> run option \<times> host" where
  "sys_execl path args pr h =
     (case step (Execl path args)
             (\<lambda>h. if programs h (root pr) path = None then Inl ENOENT else Inr (0, h)) h of
        (Err e, h') \<Rightarrow> (None, h')
      | (Ok v, h') \<Rightarrow>
          (case programs h (root pr) path of
             None \<Rightarrow> (None, h')
           | Some prog \<Rightarrow> (Some (prog args), h')))"

text \<open>The end of a process: its exit status is logged; a process that never ends logs
  nothing.\<close>

definition finish :: "run \<Rightarrow> host \<Rightarrow> host" where
  "finish r h = (case r of Terminates s \<Rightarrow> log (Exit s) (Ok 0) h | RunsForever \<Rightarrow> h)"

subsection \<open>The program\<close>

record ContainerConfig =
  name :: string
  rootfs_path :: string
  command :: string
  memory_limit :: c_long
  cpu_limit :: c_int

definition write_cgroup_file :: "string \<Rightarrow> string \<Rightarrow> host \<Rightarrow> int \<times> host" where
  "write_cgroup_file path val h =
     (case sys_fopen path h of
        (Err e, h1) \<Rightarrow> (- 1, h1)
      | (Ok f, h1) \<Rightarrow>
          (case sys_fprintf path val h1 of
             (r, h2) \<Rightarrow>
               (case sys_fclose path (buffered r val) h2 of
                  (c, h3) \<Rightarrow> if retval r < 0 then (- 1, h3) else (0, h3))))"

definition cgroup_path :: "string \<Rightarrow> string" where
  "cgroup_path container_name = snprintf 256 (''/sys/fs/cgroup/minirun-'' @ container_name)"

definition cpu_max_value :: "c_int \<Rightarrow> string" where
  "cpu_max_value cpu_percent =
     (let cpu_max = (scast (cpu_percent * 1000) :: c_long);
          cpu_period = (100000 :: c_long)
      in snprintf 128 (fmt_ld cpu_max @ '' '' @ fmt_ld cpu_period))"

definition setup_cgroups :: "string \<Rightarrow> c_long \<Rightarrow> c_int \<Rightarrow> host \<Rightarrow> int \<times> host" where
  "setup_cgroups container_name memory_limit_bytes cpu_percent h =
     (case sys_access ''/sys/fs/cgroup/cgroup.controllers'' h of
        (a, h1) \<Rightarrow>
          if retval a \<noteq> 0 then (0, h1)
          else
            (case sys_mkdir (cgroup_path container_name) h1 of
               (m, h2) \<Rightarrow>
                 if retval m \<noteq> 0 \<and> m \<noteq> Err EEXIST then (0, h2)
                 else
                   (case write_cgroup_file ''/sys/fs/cgroup/cgroup.subtree_control''
                           ''+cpu +memory'' h2 of
                      (s, h3) \<Rightarrow>
                        (case write_cgroup_file
                                (snprintf 300 (cgroup_path container_name @ ''/memory.max''))
                                (snprintf 128 (fmt_ld memory_limit_bytes)) h3 of
                           (w1, h4) \<Rightarrow>
                             (case write_cgroup_file
                                     (snprintf 300 (cgroup_path container_name @ ''/cpu.max''))
                                     (cpu_max_value cpu_percent) h4 of
                                (w2, h5) \<Rightarrow>
                                  ((if w2 \<noteq> 0 then 0 else if w1 \<noteq> 0 then 0 else 1), h5))))))"

definition cleanup_path :: "string \<Rightarrow> string" where
  "cleanup_path container_name = snprintf 512 (''/sys/fs/cgroup/minirun-'' @ container_name)"

definition cleanup_cgroups :: "string \<Rightarrow> host \<Rightarrow> host" where
  "cleanup_cgroups container_name h = snd (sys_rmdir (cleanup_path container_name) h)"

definition cgroup_procs_path :: "string \<Rightarrow> string" where
  "cgroup_procs_path container_name =
     snprintf 300 (''/sys/fs/cgroup/minirun-'' @ container_name @ ''/cgroup.procs'')"

text \<open>The entry point of the child. Its result is how the child process ends: with the
  value returned by the entry point, or the way the image started by \<^verbatim>\<open>execl\<close> ends.\<close>

definition child_function :: "ContainerConfig \<Rightarrow> proc \<Rightarrow> host \<Rightarrow> run \<times> proc \<times> host" where
  "child_function config pr h =
     (let pid_str = snprintf 32 (fmt_d (pid pr));
          h1 = (case sys_fopen (cgroup_procs_path (name config)) h of
                  (Err e, ha) \<Rightarrow> ha
                | (Ok f, ha) \<Rightarrow>
                    (case sys_fprintf (cgroup_procs_path (name config)) pid_str ha of
                       (r, hb) \<Rightarrow>
                         snd (sys_fclose (cgroup_procs_path (name config))
                                (buffered r pid_str) hb)))
      in case sys_chroot (rootfs_path config) pr h1 of
           (c, pr1, h2) \<Rightarrow>
             if retval c \<noteq> 0 then (Terminates 1, pr1, finish (Terminates 1) h2)
             else
               (case sys_chdir ''/'' pr1 h2 of
                  (d, pr2, h3) \<Rightarrow>
                    (case sys_mount ''proc'' ''/proc'' ''proc'' h3 of
                       (m, h4) \<Rightarrow>
                         (case sys_execl ''/bin/bash'' [''bash'', ''-c'', command config]
                                 pr2 h4 of
                            (None, h5) \<Rightarrow> (Terminates 1, pr2, finish (Terminates 1) h5)
                          | (Some r, h5) \<Rightarrow> (r, pr2, finish r h5)))))"

datatype outcome = Returned int | Blocked

text \<open>\<^verbatim>\<open>main\<close>, run by a process \<open>self\<close> with arguments \<open>argv\<close> (the program name first).
  The child created by \<^verbatim>\<open>clone\<close> starts in fresh process-id and mount namespaces: it
  sees itself as process 1 and inherits the root and working directory. The parent does
  nothing but print between \<^verbatim>\<open>clone\<close> and \<^verbatim>\<open>waitpid\<close>, so the child's calls are
  logged in between; \<^verbatim>\<open>waitpid\<close> does not return while the child runs.\<close>

definition main :: "proc \<Rightarrow> string list \<Rightarrow> host \<Rightarrow> outcome \<times> host" where
  "main self argv h =
     (if length argv < 4 then (Returned 1, h)
      else
        (let config = \<lparr>name = argv ! 1, rootfs_path = argv ! 2, command = argv ! 3,
                       memory_limit = 512 * 1024 * 1024, cpu_limit = 50\<rparr>
         in case setup_cgroups (name config) (memory_limit config) (cpu_limit config) h of
              (cgroups_enabled, h1) \<Rightarrow>
                (case sys_malloc (1024 * 1024) h1 of
                   (Err e, h2) \<Rightarrow> (Returned 1, cleanup_cgroups (name config) h2)
                 | (Ok stack, h2) \<Rightarrow>
                     (case sys_clone h2 of
                        (Err e, h3) \<Rightarrow>
                          (Returned 1, cleanup_cgroups (name config) (sys_free h3))
                      | (Ok child_pid, h3) \<Rightarrow>
                          (case child_function config (self\<lparr>pid := 1\<rparr>) h3 of
                             (RunsForever, pr, h4) \<Rightarrow> (Blocked, h4)
                           | (Terminates status, pr, h4) \<Rightarrow>
                               (case sys_waitpid child_pid h4 of
                                  (w, h5) \<Rightarrow>
                                    (Returned 0,
                                     cleanup_cgroups (name config) (sys_free h5))))))))"

subsection \<open>Reading the log\<close>

text \<open>The calls made between two states of the host.\<close>

definition calls_since :: "host \<Rightarrow> host \<Rightarrow> (syscall \<times> ret) list" where
  "calls_since h h' = drop (length (trace h)) (trace h')"

text \<open>The calls that \<^verbatim>\<open>setup_cgroups\<close> can make, and those the child can make.\<close>

fun is_file_call :: "syscall \<Rightarrow> bool" where
  "is_file_call (Access p) = True"
| "is_file_call (Mkdir p) = True"
| "is_file_call (Fopen p) = True"
| "is_file_call (Fprintf p v) = True"
| "is_file_call (Fclose p) = True"
| "is_file_call c = False"

fun is_child_call :: "syscall \<Rightarrow> bool" where
  "is_child_call (Fopen p) = True"
| "is_child_call (Fprintf p v) = True"
| "is_child_call (Fclose p) = True"
| "is_child_call (Chroot p) = True"
| "is_child_call (Chdir p) = True"
| "is_child_call (Mount s t f) = True"
| "is_child_call (Execl p a) = True"
| "is_child_call (Exit s) = True"
| "is_child_call c = False"

text \<open>\<open>extends P h h'\<close>: the host \<open>h'\<close> is \<open>h\<close> after some more calls, all of kind \<open>P\<close>;
  what the host refuses and the installed programs are the same.\<close>

definition extends :: "(syscall \<Rightarrow> bool) \<Rightarrow> host \<Rightarrow> host \<Rightarrow> bool" where
  "extends P h h' \<longleftrightarrow>
     fault h' = fault h \<and> programs h' = programs h \<and>
     (\<exists>ev. trace h' = trace h @ ev \<and> (\<forall>c\<in>set ev. P (fst c)))"

subsection \<open>Names for parts of the program\<close>

text \<open>The configuration that \<^verbatim>\<open>main\<close> builds from its arguments.\<close>

definition config_of :: "string list \<Rightarrow> ContainerConfig" where
  "config_of argv = \<lparr>name = argv ! 1, rootfs_path = argv ! 2, command = argv ! 3,
                      memory_limit = 512 * 1024 * 1024, cpu_limit = 50\<rparr>"

text \<open>The first block of \<^verbatim>\<open>child_function\<close>, which writes the process id to the group's
  \<^verbatim>\<open>cgroup.procs\<close> file, and the two forms its calls can take: the file could not be
  opened, or it was opened, written and closed.\<close>

definition join_cgroup :: "string \<Rightarrow> proc \<Rightarrow> host \<Rightarrow> host" where
  "join_cgroup nm pr h =
     (case sys_fopen (cgroup_procs_path nm) h of
        (Err e, ha) \<Rightarrow> ha
      | (Ok f, ha) \<Rightarrow>
          (case sys_fprintf (cgroup_procs_path nm) (snprintf 32 (fmt_d (pid pr))) ha of
             (r, hb) \<Rightarrow>
               snd (sys_fclose (cgroup_procs_path nm)
                      (buffered r (snprintf 32 (fmt_d (pid pr)))) hb)))"

definition join_calls :: "string \<Rightarrow> proc \<Rightarrow> (syscall \<times> ret) list \<Rightarrow> bool" where
  "join_calls nm pr J \<longleftrightarrow>
     (\<exists>e. J = [(Fopen (cgroup_procs_path nm), Err e)]) \<or>
     (\<exists>fr cr. J = [(Fopen (cgroup_procs_path nm), Ok 1),
                   (Fprintf (cgroup_procs_path nm) (snprintf 32 (fmt_d (pid pr))), fr),
                   (Fclose (cgroup_procs_path nm), cr)])"

text \<open>The last call of \<^verbatim>\<open>child_function\<close>, and the log entry for the end of a process.\<close>

definition bash_call :: "ContainerConfig \<Rightarrow> syscall" where
  "bash_call config = Execl ''/bin/bash'' [''bash'', ''-c'', command config]"

definition exit_calls :: "run \<Rightarrow> (syscall \<times> ret) list" where
  "exit_calls r = (case r of Terminates s \<Rightarrow> [(Exit s, Ok 0)] | RunsForever \<Rightarrow> [])"

subsection \<open>Example hosts\<close>

text \<open>A host with the control-group hierarchy mounted, a root filesystem at
  \<^verbatim>\<open>/srv/rootfs\<close> holding a shell, and a kernel that refuses nothing.\<close>

definition host0 :: host where
  "host0 = \<lparr>paths = {''/sys/fs/cgroup/cgroup.controllers'', ''/srv/rootfs''},
            written = Map.empty,
            programs = (\<lambda>r p. if r = ''/srv/rootfs'' \<and> p = ''/bin/bash''
                                  then Some (\<lambda>args. Terminates 7) else None),
            fault = (\<lambda>n c. None), next_pid = 4240, trace = []\<rparr>"

text \<open>The same host without the control-group hierarchy.\<close>

definition host_nocg :: host where
  "host_nocg = host0\<lparr>paths := {''/srv/rootfs''},
                       fault := (\<lambda>n c. if c = Fopen ''/sys/fs/cgroup/minirun-t1/cgroup.procs''
                                        then Some ENOENT else None)\<rparr>"

text \<open>The same host where the group of container \<^verbatim>\<open>t1\<close> was left behind by an earlier
  run and the memory controller is not enabled, so that \<^verbatim>\<open>memory.max\<close> cannot be opened.\<close>

definition host_reuse :: host where
  "host_reuse = host0\<lparr>paths := {''/sys/fs/cgroup/cgroup.controllers'', ''/srv/rootfs'',
                                  ''/sys/fs/cgroup/minirun-t1''},
                        fault := (\<lambda>n c. if c = Fopen ''/sys/fs/cgroup/minirun-t1/memory.max''
                                         then Some EACCES else None)\<rparr>"

text \<open>The same host where the kernel rejects what is written to \<^verbatim>\<open>memory.max\<close> and
  \<^verbatim>\<open>cpu.max\<close> of container \<^verbatim>\<open>t1\<close>: the writes made by \<^verbatim>\<open>fclose\<close> fail.\<close>

definition host_fclose :: host where
  "host_fclose = host0\<lparr>fault := (\<lambda>n c. if c = Fclose ''/sys/fs/cgroup/minirun-t1/memory.max''
                                            \<or> c = Fclose ''/sys/fs/cgroup/minirun-t1/cpu.max''
                                         then Some EINVAL else None)\<rparr>"

text \<open>The same host where \<^verbatim>\<open>chdir\<close> fails with an I/O error.\<close>

definition host_chdir :: host where
  "host_chdir = host0\<lparr>fault := (\<lambda>n c. if c = Chdir ''/'' then Some EIO else None)\<rparr>"

text \<open>The same host out of memory, and the same host where the caller may not create
  namespaces.\<close>

definition host_nomem :: host where
  "host_nomem = host0\<lparr>fault := (\<lambda>n c. if c = Malloc 1048576 then Some ENOMEM else None)\<rparr>"

definition host_noclone :: host where
  "host_noclone = host0\<lparr>fault := (\<lambda>n c. if c = Clone then Some EPERM else None)\<rparr>"

text \<open>A host whose root filesystem holds \<^verbatim>\<open>/bin/true\<close> but no shell.\<close>

definition host_nobash :: host where
  "host_nobash = host0\<lparr>programs := (\<lambda>r p. if r = ''/srv/rootfs'' \<and> p = ''/bin/true''
                                               then Some (\<lambda>args. Terminates 0) else None)\<rparr>"

text \<open>The calling process, the child that \<^verbatim>\<open>clone\<close> makes of it, and argument vectors.\<close>

definition self0 :: proc where
  "self0 = \<lparr>pid = 4000, root = ''/'', cwd = ''/home/user''\<rparr>"

definition child0 :: proc where
  "child0 = \<lparr>pid = 1, root = ''/'', cwd = ''/home/user''\<rparr>"

definition argv_ok :: "string list" where
  "argv_ok = [''minirun'', ''t1'', ''/srv/rootfs'', ''/bin/true'']"

definition argv_badroot :: "string list" where
  "argv_badroot = [''minirun'', ''t1'', ''/nonexistent'', ''/bin/true'']"

definition argv_noname :: "string list" where
  "argv_noname = [''minirun'', [], ''/srv/rootfs'', ''/bin/true'']"

definition argv_short :: "string list" where
  "argv_short = [''minirun'', ''t1'']"

section \<open>Properties\<close>

subsection \<open>Single calls\<close>

lemma calls_since_append: "trace h' = trace h @ ev \<Longrightarrow> calls_since h h' = ev"
  by (simp add: calls_since_def)

lemma stepE:
  assumes "step c eff h = (r, h')"
  obtains (refused) e where "fault h (length (trace h)) c = Some e" "r = Err e"
      "h' = log c (Err e) h"
  | (failed) e where "fault h (length (trace h)) c = None" "eff h = Inl e" "r = Err e"
      "h' = log c (Err e) h"
  | (passed) v h1 where "fault h (length (trace h)) c = None" "eff h = Inr (v, h1)"
      "r = Ok v" "h' = log c (Ok v) h1"
  using assms by (auto simp: step_def split: option.splits sum.splits)

lemma log_fields [simp]:
  "trace (log c r h) = trace h @ [(c, r)]"
  "paths (log c r h) = paths h"
  "written (log c r h) = written h"
  "programs (log c r h) = programs h"
  "fault (log c r h) = fault h"
  "next_pid (log c r h) = next_pid h"
  by (simp_all add: log_def)

lemma sys_fopen_spec:
  assumes "sys_fopen p h = (r, h')"
  shows "trace h' = trace h @ [(Fopen p, r)] \<and> fault h' = fault h \<and> programs h' = programs h
       \<and> written h' = written h
       \<and> ((\<exists>e. r = Err e \<and> paths h' = paths h) \<or> (r = Ok 1 \<and> paths h' = insert p (paths h)))"
  using assms unfolding sys_fopen_def by (auto elim!: stepE)

lemma sys_fprintf_spec:
  assumes "sys_fprintf p v h = (r, h')"
  shows "trace h' = trace h @ [(Fprintf p v, r)] \<and> fault h' = fault h
       \<and> programs h' = programs h \<and> paths h' = paths h \<and> written h' = written h
       \<and> ((\<exists>e. r = Err e) \<or> r = Ok (int (length v)))"
  using assms unfolding sys_fprintf_def by (auto elim!: stepE)

lemma sys_fclose_spec:
  assumes "sys_fclose p buf h = (r, h')"
  shows "trace h' = trace h @ [(Fclose p, r)] \<and> fault h' = fault h
       \<and> programs h' = programs h \<and> paths h' = paths h
       \<and> ((\<exists>e. r = Err e) \<and> written h' = written h
          \<or> r = Ok 0 \<and> written h' = (if buf = [] then written h else (written h)(p \<mapsto> buf)))"
  using assms unfolding sys_fclose_def by (auto elim!: stepE)

lemma buffered_simps [simp]: "buffered (Err e) v = []" "buffered (Ok (int n)) v = v"
  by (simp_all add: buffered_def retval_def)

lemma write_cgroup_file_spec:
  assumes "write_cgroup_file path v h = (r, h')"
  shows "fault h' = fault h \<and> programs h' = programs h \<and>
    ((\<exists>e. trace h' = trace h @ [(Fopen path, Err e)] \<and> r = - 1
          \<and> written h' = written h \<and> paths h' = paths h)
     \<or> (\<exists>fr cr. trace h' = trace h @ [(Fopen path, Ok 1), (Fprintf path v, fr), (Fclose path, cr)]
          \<and> paths h' = insert path (paths h)
          \<and> ((\<exists>e. fr = Err e) \<and> r = - 1 \<and> written h' = written h
             \<or> fr = Ok (int (length v)) \<and> r = 0
                \<and> ((\<exists>e. cr = Err e) \<and> written h' = written h
                   \<or> cr = Ok 0
                      \<and> written h' = (if v = [] then written h else (written h)(path \<mapsto> v))))))"
proof -
  obtain f h1 where F: "sys_fopen path h = (f, h1)" by fastforce
  note f = sys_fopen_spec [OF F]
  from f consider e where "f = Err e" | "f = Ok 1" by blast
  then show ?thesis
  proof cases
    case 1
    with F assms have "r = - 1" "h' = h1" by (simp_all add: write_cgroup_file_def)
    with f 1 show ?thesis by auto
  next
    case 2
    obtain fr h2 where P: "sys_fprintf path v h1 = (fr, h2)" by fastforce
    obtain cr h3 where C: "sys_fclose path (buffered fr v) h2 = (cr, h3)" by fastforce
    note p = sys_fprintf_spec [OF P] and c = sys_fclose_spec [OF C]
    from F 2 P C assms have r: "r = (if retval fr < 0 then - 1 else 0)" "h' = h3"
      by (simp_all add: write_cgroup_file_def split: if_splits)
    from f 2 p c r(2) have t: "trace h' = trace h @ [(Fopen path, Ok 1), (Fprintf path v, fr), (Fclose path, cr)]"
      "paths h' = insert path (paths h)" "fault h' = fault h" "programs h' = programs h"
      by auto
    from p consider e where "fr = Err e" | "fr = Ok (int (length v))" by blast
    then have "(\<exists>e. fr = Err e) \<and> r = - 1 \<and> written h' = written h
             \<or> fr = Ok (int (length v)) \<and> r = 0
                \<and> ((\<exists>e. cr = Err e) \<and> written h' = written h
                   \<or> cr = Ok 0
                      \<and> written h' = (if v = [] then written h else (written h)(path \<mapsto> v)))"
    proof cases
      case 1
      with f 2 p c r show ?thesis by (auto simp: retval_def)
    next
      case 2
      with f \<open>f = Ok 1\<close> p c r show ?thesis by (auto simp: retval_def)
    qed
    with t show ?thesis by blast
  qed
qed

subsection \<open>Provisioning\<close>

lemma extends_refl [simp]: "extends P h h"
  by (simp add: extends_def)

lemma extends_trans: "extends P h h1 \<Longrightarrow> extends P h1 h2 \<Longrightarrow> extends P h h2"
  unfolding extends_def by (elim conjE exE) (simp, blast)

lemma extends_mono: "extends P h h' \<Longrightarrow> (\<And>c. P c \<Longrightarrow> Q c) \<Longrightarrow> extends Q h h'"
  unfolding extends_def by blast

lemma extends_log: "P c \<Longrightarrow> extends P h (log c r h)"
  by (simp add: extends_def)

lemma extends_step:
  assumes "step c eff h = (r, h')" and "P c"
    and "\<And>v h1. eff h = Inr (v, h1) \<Longrightarrow> trace h1 = trace h \<and> fault h1 = fault h \<and> programs h1 = programs h"
  shows "extends P h h'"
  using assms(1) by (cases rule: stepE) (use assms(2,3) in \<open>auto simp: extends_def\<close>)

lemma extends_calls:
  "extends P h h' \<Longrightarrow> trace h' = trace h @ calls_since h h' \<and> (\<forall>c\<in>set (calls_since h h'). P (fst c))"
  unfolding extends_def calls_since_def by auto

lemma sys_access_spec:
  assumes "sys_access p h = (r, h')"
  shows "h' = log (Access p) r h \<and> (r = Ok 0 \<and> p \<in> paths h \<or> (\<exists>e. r = Err e))"
  using assms unfolding sys_access_def by (auto elim!: stepE split: if_splits)

lemma sys_mkdir_spec:
  assumes "sys_mkdir p h = (r, h')"
  shows "trace h' = trace h @ [(Mkdir p, r)] \<and> fault h' = fault h \<and> programs h' = programs h
     \<and> written h' = written h
     \<and> (r = Ok 0 \<and> paths h' = insert p (paths h) \<or> (\<exists>e. r = Err e \<and> paths h' = paths h))
     \<and> (p \<in> paths h \<and> fault h (length (trace h)) (Mkdir p) = None \<longrightarrow> r = Err EEXIST)"
  using assms unfolding sys_mkdir_def by (auto elim!: stepE split: if_splits)

lemma cgroup_path_eq: "cgroup_path nm = ''/sys/fs/cgroup/minirun-'' @ take 232 nm"
  by (simp add: cgroup_path_def snprintf_def)

lemma memory_max_path [simp]:
  "snprintf 300 (cgroup_path nm @ ''/memory.max'') = cgroup_path nm @ ''/memory.max''"
  by (simp add: cgroup_path_eq snprintf_def)

lemma cpu_max_path [simp]:
  "snprintf 300 (cgroup_path nm @ ''/cpu.max'') = cgroup_path nm @ ''/cpu.max''"
  by (simp add: cgroup_path_eq snprintf_def)

lemma cgroup_paths_distinct [simp]:
  "cgroup_path nm @ ''/memory.max'' \<noteq> cgroup_path nm @ ''/cpu.max''"
  "cgroup_path nm @ ''/cpu.max'' \<noteq> cgroup_path nm @ ''/memory.max''"
  "''/sys/fs/cgroup/cgroup.subtree_control'' \<noteq> cgroup_path nm @ ''/cpu.max''"
  "''/sys/fs/cgroup/cgroup.subtree_control'' \<noteq> cgroup_path nm @ ''/memory.max''"
  "cgroup_path nm @ ''/cpu.max'' \<noteq> ''/sys/fs/cgroup/cgroup.subtree_control''"
  "cgroup_path nm @ ''/memory.max'' \<noteq> ''/sys/fs/cgroup/cgroup.subtree_control''"
  by (simp_all add: cgroup_path_eq)

lemma retval_simps [simp]: "retval (Ok v) = v" "retval (Err e) = - 1"
  by (simp_all add: retval_def)

lemma setup_unavailable:
  "sys_access ''/sys/fs/cgroup/cgroup.controllers'' h = (Err e, h1) \<Longrightarrow>
   setup_cgroups nm mem p h = (0, h1)"
  by (simp add: setup_cgroups_def)

lemma setup_nodir:
  "sys_access ''/sys/fs/cgroup/cgroup.controllers'' h = (Ok 0, h1) \<Longrightarrow>
   sys_mkdir (cgroup_path nm) h1 = (Err e, h2) \<Longrightarrow> e \<noteq> EEXIST \<Longrightarrow>
   setup_cgroups nm mem p h = (0, h2)"
  by (simp add: setup_cgroups_def)

lemma setup_limits:
  "sys_access ''/sys/fs/cgroup/cgroup.controllers'' h = (Ok 0, h1) \<Longrightarrow>
   sys_mkdir (cgroup_path nm) h1 = (m, h2) \<Longrightarrow> m = Ok 0 \<or> m = Err EEXIST \<Longrightarrow>
   write_cgroup_file ''/sys/fs/cgroup/cgroup.subtree_control'' ''+cpu +memory'' h2 = (s, h3) \<Longrightarrow>
   write_cgroup_file (cgroup_path nm @ ''/memory.max'') (snprintf 128 (fmt_ld mem)) h3 = (w1, h4) \<Longrightarrow>
   write_cgroup_file (cgroup_path nm @ ''/cpu.max'') (cpu_max_value p) h4 = (w2, h5) \<Longrightarrow>
   setup_cgroups nm mem p h = ((if w2 \<noteq> 0 then 0 else if w1 \<noteq> 0 then 0 else 1), h5)"
  by (erule disjE) (simp_all add: setup_cgroups_def)

lemma setup_cgroups_cases:
  assumes "setup_cgroups nm mem p h = (ok, h')"
  obtains (unavailable) e where
      "sys_access ''/sys/fs/cgroup/cgroup.controllers'' h = (Err e, h')" "ok = 0"
  | (nodir) h1 e where
      "sys_access ''/sys/fs/cgroup/cgroup.controllers'' h = (Ok 0, h1)"
      "sys_mkdir (cgroup_path nm) h1 = (Err e, h')" "e \<noteq> EEXIST" "ok = 0"
  | (limits) h1 m h2 s h3 w1 h4 w2 where
      "sys_access ''/sys/fs/cgroup/cgroup.controllers'' h = (Ok 0, h1)"
      "sys_mkdir (cgroup_path nm) h1 = (m, h2)" "m = Ok 0 \<or> m = Err EEXIST"
      "write_cgroup_file ''/sys/fs/cgroup/cgroup.subtree_control'' ''+cpu +memory'' h2 = (s, h3)"
      "write_cgroup_file (cgroup_path nm @ ''/memory.max'') (snprintf 128 (fmt_ld mem)) h3 = (w1, h4)"
      "write_cgroup_file (cgroup_path nm @ ''/cpu.max'') (cpu_max_value p) h4 = (w2, h')"
      "ok = (if w2 \<noteq> 0 then 0 else if w1 \<noteq> 0 then 0 else 1)"
proof -
  obtain a h1 where A: "sys_access ''/sys/fs/cgroup/cgroup.controllers'' h = (a, h1)"
    by fastforce
  from sys_access_spec [OF A] consider "a = Ok 0" | e where "a = Err e" by blast
  then show thesis
  proof cases
    case 2
    with A have A': "sys_access ''/sys/fs/cgroup/cgroup.controllers'' h = (Err e, h1)" by simp
    from setup_unavailable [OF A', of nm mem p] assms have "ok = 0" "h1 = h'" by simp_all
    with A' show thesis by (simp add: unavailable)
  next
    case 1
    with A have A': "sys_access ''/sys/fs/cgroup/cgroup.controllers'' h = (Ok 0, h1)" by simp
    obtain m h2 where M: "sys_mkdir (cgroup_path nm) h1 = (m, h2)" by fastforce
    from sys_mkdir_spec [OF M]
    consider "m = Ok 0 \<or> m = Err EEXIST" | e where "m = Err e" "e \<noteq> EEXIST" by blast
    then show thesis
    proof cases
      case 2
      with M have M': "sys_mkdir (cgroup_path nm) h1 = (Err e, h2)" by simp
      from setup_nodir [OF A' M' 2(2), of mem p] assms have "ok = 0" "h2 = h'" by simp_all
      with A' M' 2 show thesis by (simp add: nodir)
    next
      case dir: 1
      obtain s h3 where S: "write_cgroup_file ''/sys/fs/cgroup/cgroup.subtree_control'' ''+cpu +memory'' h2 = (s, h3)"
        by fastforce
      obtain w1 h4 where W1: "write_cgroup_file (cgroup_path nm @ ''/memory.max'') (snprintf 128 (fmt_ld mem)) h3 = (w1, h4)"
        by fastforce
      obtain w2 h5 where W2: "write_cgroup_file (cgroup_path nm @ ''/cpu.max'') (cpu_max_value p) h4 = (w2, h5)"
        by fastforce
      from setup_limits [OF A' M dir S W1 W2] assms
      have "ok = (if w2 \<noteq> 0 then 0 else if w1 \<noteq> 0 then 0 else 1)" "h5 = h'" by simp_all
      with A' M dir S W1 W2 show thesis by (simp add: limits)
    qed
  qed
qed

lemma write_cgroup_file_extends:
  assumes "write_cgroup_file path v h = (r, h')"
  shows "extends is_file_call h h'" and "paths h \<subseteq> paths h'"
  using write_cgroup_file_spec [OF assms] by (auto simp: extends_def)

lemma setup_cgroups_extends:
  assumes "setup_cgroups nm mem p h = (ok, h')"
  shows "extends is_file_call h h' \<and> paths h \<subseteq> paths h'"
  using assms
proof (cases rule: setup_cgroups_cases)
  case (unavailable e)
  then show ?thesis using sys_access_spec [OF unavailable(1)] by (auto intro: extends_log)
next
  case (nodir h1 e)
  have "extends is_file_call h h1" "paths h1 = paths h"
    using sys_access_spec [OF nodir(1)] by (auto intro: extends_log)
  moreover have "extends is_file_call h1 h'" "paths h1 \<subseteq> paths h'"
    using sys_mkdir_spec [OF nodir(2)] by (auto simp: extends_def)
  ultimately show ?thesis by (auto intro: extends_trans)
next
  case (limits h1 m h2 s h3 w1 h4 w2)
  have a: "extends is_file_call h h1" "paths h1 = paths h"
    using sys_access_spec [OF limits(1)] by (auto intro: extends_log)
  have b: "extends is_file_call h1 h2" "paths h1 \<subseteq> paths h2"
    using sys_mkdir_spec [OF limits(2)] by (auto simp: extends_def)
  note c = write_cgroup_file_extends [OF limits(4)]
  note d = write_cgroup_file_extends [OF limits(5)]
  note e = write_cgroup_file_extends [OF limits(6)]
  have "extends is_file_call h h'"
    by (rule extends_trans [OF a(1)], rule extends_trans [OF b(1)],
        rule extends_trans [OF c(1)], rule extends_trans [OF d(1)], rule e(1))
  moreover have "paths h \<subseteq> paths h'"
    using a(2) b(2) c(2) d(2) e(2) by simp
  ultimately show ?thesis by simp
qed

lemma write_cgroup_file_calls:
  assumes "write_cgroup_file path v h = (r, h')"
  shows "\<exists>ev. trace h' = trace h @ ev
     \<and> (\<forall>c\<in>set ev. fst c = Fopen path \<or> fst c = Fprintf path v \<or> fst c = Fclose path)
     \<and> (\<exists>r0. (Fopen path, r0) \<in> set ev)
     \<and> ((\<exists>e. (Fopen path, Err e) \<in> set ev \<or> (Fprintf path v, Err e) \<in> set ev) \<longrightarrow> r \<noteq> 0)
     \<and> (r = 0 \<longrightarrow> (Fprintf path v, Ok (int (length v))) \<in> set ev)
     \<and> ((Fopen path, Ok 1) \<in> set ev \<longrightarrow>
           (\<exists>fr. (Fprintf path v, fr) \<in> set ev) \<and> (\<exists>cr. (Fclose path, cr) \<in> set ev))
     \<and> ((Fprintf path v, Ok (int (length v))) \<in> set ev \<and> (Fclose path, Ok 0) \<in> set ev
           \<and> v \<noteq> [] \<longrightarrow> written h' path = Some v)"
proof -
  from write_cgroup_file_spec [OF assms] consider
      (closed) e where "trace h' = trace h @ [(Fopen path, Err e)]" "r = - 1"
    | (unwritten) e cr where
        "trace h' = trace h @ [(Fopen path, Ok 1), (Fprintf path v, Err e), (Fclose path, cr)]"
        "r = - 1"
    | (rejected) e where
        "trace h' = trace h @ [(Fopen path, Ok 1), (Fprintf path v, Ok (int (length v))),
                               (Fclose path, Err e)]"
        "r = 0"
    | (flushed)
        "trace h' = trace h @ [(Fopen path, Ok 1), (Fprintf path v, Ok (int (length v))),
                               (Fclose path, Ok 0)]"
        "r = 0" "written h' = (if v = [] then written h else (written h)(path \<mapsto> v))"
    by blast
  then show ?thesis
  proof cases
    case closed
    show ?thesis by (rule exI [of _ "[(Fopen path, Err e)]"]) (use closed in simp)
  next
    case unwritten
    show ?thesis
      by (rule exI [of _ "[(Fopen path, Ok 1), (Fprintf path v, Err e), (Fclose path, cr)]"])
        (use unwritten in simp)
  next
    case rejected
    show ?thesis
      by (rule exI [of _ "[(Fopen path, Ok 1), (Fprintf path v, Ok (int (length v))),
                           (Fclose path, Err e)]"])
        (use rejected in simp)
  next
    case flushed
    show ?thesis
      by (rule exI [of _ "[(Fopen path, Ok 1), (Fprintf path v, Ok (int (length v))),
                           (Fclose path, Ok 0)]"])
        (use flushed in simp)
  qed
qed

lemma setup_cgroups_events:
  assumes "setup_cgroups nm mem p h = (ok, h')"
  shows "(\<forall>v r. (Fprintf (cgroup_path nm @ ''/cpu.max'') v, r) \<in> set (calls_since h h')
            \<longrightarrow> v = cpu_max_value p)
       \<and> (\<forall>m. (Mkdir (cgroup_path nm), m) \<in> set (calls_since h h')
                \<and> (m = Ok 0 \<or> m = Err EEXIST) \<longrightarrow>
              (\<exists>r. (Fopen (cgroup_path nm @ ''/cpu.max''), r) \<in> set (calls_since h h')))
       \<and> ((Fopen (cgroup_path nm @ ''/cpu.max''), Ok 1) \<in> set (calls_since h h') \<longrightarrow>
              (\<exists>fr. (Fprintf (cgroup_path nm @ ''/cpu.max'') (cpu_max_value p), fr)
                      \<in> set (calls_since h h'))
            \<and> (\<exists>cr. (Fclose (cgroup_path nm @ ''/cpu.max''), cr) \<in> set (calls_since h h')))
       \<and> (ok = 1 \<longrightarrow>
              (Fprintf (cgroup_path nm @ ''/cpu.max'') (cpu_max_value p),
               Ok (int (length (cpu_max_value p)))) \<in> set (calls_since h h'))
       \<and> ((Fprintf (cgroup_path nm @ ''/cpu.max'') (cpu_max_value p),
               Ok (int (length (cpu_max_value p)))) \<in> set (calls_since h h')
            \<and> (Fclose (cgroup_path nm @ ''/cpu.max''), Ok 0) \<in> set (calls_since h h')
            \<and> cpu_max_value p \<noteq> [] \<longrightarrow>
              written h' (cgroup_path nm @ ''/cpu.max'') = Some (cpu_max_value p))"
  using assms
proof (cases rule: setup_cgroups_cases)
  case (unavailable e)
  from sys_access_spec [OF unavailable(1)] have "calls_since h h' = [(Access ''/sys/fs/cgroup/cgroup.controllers'', Err e)]"
    by (auto simp: calls_since_def)
  with unavailable show ?thesis by simp
next
  case (nodir h1 e)
  from sys_access_spec [OF nodir(1)] sys_mkdir_spec [OF nodir(2)]
  have "calls_since h h' = [(Access ''/sys/fs/cgroup/cgroup.controllers'', Ok 0), (Mkdir (cgroup_path nm), Err e)]"
    by (auto simp: calls_since_def)
  with nodir show ?thesis by simp
next
  case (limits h1 m h2 s h3 w1 h4 w2)
  from sys_access_spec [OF limits(1)] sys_mkdir_spec [OF limits(2)]
  have t2: "trace h2 = trace h @ [(Access ''/sys/fs/cgroup/cgroup.controllers'', Ok 0), (Mkdir (cgroup_path nm), m)]"
    by auto
  from write_cgroup_file_calls [OF limits(4)] obtain evS where
    S: "trace h3 = trace h2 @ evS"
       "\<forall>c\<in>set evS. fst c = Fopen ''/sys/fs/cgroup/cgroup.subtree_control''
          \<or> fst c = Fprintf ''/sys/fs/cgroup/cgroup.subtree_control'' ''+cpu +memory''
          \<or> fst c = Fclose ''/sys/fs/cgroup/cgroup.subtree_control''"
    by blast
  from write_cgroup_file_calls [OF limits(5)] obtain evM where
    M: "trace h4 = trace h3 @ evM"
       "\<forall>c\<in>set evM. fst c = Fopen (cgroup_path nm @ ''/memory.max'')
          \<or> fst c = Fprintf (cgroup_path nm @ ''/memory.max'') (snprintf 128 (fmt_ld mem))
          \<or> fst c = Fclose (cgroup_path nm @ ''/memory.max'')"
    by blast
  from write_cgroup_file_calls [OF limits(6)] obtain evC rC where
    C: "trace h' = trace h4 @ evC"
       "\<forall>c\<in>set evC. fst c = Fopen (cgroup_path nm @ ''/cpu.max'')
          \<or> fst c = Fprintf (cgroup_path nm @ ''/cpu.max'') (cpu_max_value p)
          \<or> fst c = Fclose (cgroup_path nm @ ''/cpu.max'')"
       "(Fopen (cgroup_path nm @ ''/cpu.max''), rC) \<in> set evC"
       "w2 = 0 \<longrightarrow> (Fprintf (cgroup_path nm @ ''/cpu.max'') (cpu_max_value p),
                     Ok (int (length (cpu_max_value p)))) \<in> set evC"
       "(Fopen (cgroup_path nm @ ''/cpu.max''), Ok 1) \<in> set evC \<longrightarrow>
           (\<exists>fr. (Fprintf (cgroup_path nm @ ''/cpu.max'') (cpu_max_value p), fr) \<in> set evC)
         \<and> (\<exists>cr. (Fclose (cgroup_path nm @ ''/cpu.max''), cr) \<in> set evC)"
       "(Fprintf (cgroup_path nm @ ''/cpu.max'') (cpu_max_value p),
           Ok (int (length (cpu_max_value p)))) \<in> set evC
         \<and> (Fclose (cgroup_path nm @ ''/cpu.max''), Ok 0) \<in> set evC
         \<and> cpu_max_value p \<noteq> [] \<longrightarrow>
           written h' (cgroup_path nm @ ''/cpu.max'') = Some (cpu_max_value p)"
    by blast
  have calls: "calls_since h h' = [(Access ''/sys/fs/cgroup/cgroup.controllers'', Ok 0), (Mkdir (cgroup_path nm), m)] @ evS @ evM @ evC"
    using t2 S(1) M(1) C(1) by (simp add: calls_since_def)
  have notS [simp]: "(Fopen (cgroup_path nm @ ''/cpu.max''), r) \<notin> set evS"
      "(Fprintf (cgroup_path nm @ ''/cpu.max'') v, r) \<notin> set evS"
      "(Fclose (cgroup_path nm @ ''/cpu.max''), r) \<notin> set evS" for r v
    using S(2) by fastforce+
  have notM [simp]: "(Fopen (cgroup_path nm @ ''/cpu.max''), r) \<notin> set evM"
      "(Fprintf (cgroup_path nm @ ''/cpu.max'') v, r) \<notin> set evM"
      "(Fclose (cgroup_path nm @ ''/cpu.max''), r) \<notin> set evM" for r v
    using M(2) by fastforce+
  have c1: "v = cpu_max_value p"
    if "(Fprintf (cgroup_path nm @ ''/cpu.max'') v, r) \<in> set (calls_since h h')" for v r
  proof -
    from that calls have "(Fprintf (cgroup_path nm @ ''/cpu.max'') v, r) \<in> set evC" by simp
    with C(2) show ?thesis by fastforce
  qed
  have c2: "\<exists>r. (Fopen (cgroup_path nm @ ''/cpu.max''), r) \<in> set (calls_since h h')"
    using calls C(3) by auto
  have c3: "(\<exists>fr. (Fprintf (cgroup_path nm @ ''/cpu.max'') (cpu_max_value p), fr)
                      \<in> set (calls_since h h'))
            \<and> (\<exists>cr. (Fclose (cgroup_path nm @ ''/cpu.max''), cr) \<in> set (calls_since h h'))"
    if "(Fopen (cgroup_path nm @ ''/cpu.max''), Ok 1) \<in> set (calls_since h h')"
  proof -
    from that calls have "(Fopen (cgroup_path nm @ ''/cpu.max''), Ok 1) \<in> set evC" by simp
    with C(5) calls show ?thesis by simp
  qed
  have c4: "(Fprintf (cgroup_path nm @ ''/cpu.max'') (cpu_max_value p),
               Ok (int (length (cpu_max_value p)))) \<in> set (calls_since h h')" if "ok = 1"
  proof -
    from that limits(7) have "w2 = 0" by (simp split: if_splits)
    with C(4) calls show ?thesis by simp
  qed
  have c5: "written h' (cgroup_path nm @ ''/cpu.max'') = Some (cpu_max_value p)"
    if "(Fprintf (cgroup_path nm @ ''/cpu.max'') (cpu_max_value p),
               Ok (int (length (cpu_max_value p)))) \<in> set (calls_since h h')"
       "(Fclose (cgroup_path nm @ ''/cpu.max''), Ok 0) \<in> set (calls_since h h')"
       "cpu_max_value p \<noteq> []"
  proof -
    from that(1,2) calls have "(Fprintf (cgroup_path nm @ ''/cpu.max'') (cpu_max_value p),
           Ok (int (length (cpu_max_value p)))) \<in> set evC"
      "(Fclose (cgroup_path nm @ ''/cpu.max''), Ok 0) \<in> set evC" by simp_all
    with C(6) that(3) show ?thesis by blast
  qed
  from c1 c2 c3 c4 c5 show ?thesis by blast
qed

subsection \<open>Decimal rendering and the CPU quota\<close>

lemma dec_length: "0 < k \<Longrightarrow> n < 10 ^ k \<Longrightarrow> length (dec n) \<le> k"
proof (induction k arbitrary: n)
  case 0
  then show ?case by simp
next
  case (Suc k)
  show ?case
  proof (cases "n < 10")
    case True
    then show ?thesis by (subst dec.simps) simp
  next
    case False
    with Suc.prems have k: "0 < k" by (cases k) auto
    from Suc.prems have "n div 10 < 10 ^ k" by (simp add: less_mult_imp_div_less mult.commute)
    from Suc.IH [OF k this] False show ?thesis by (subst dec.simps) simp
  qed
qed

lemma show_int_length: "- (10 ^ 19) < i \<Longrightarrow> i < 10 ^ 19 \<Longrightarrow> length (show_int i) \<le> 20"
proof -
  assume a: "- (10 ^ 19) < i" "i < 10 ^ 19"
  have "\<bar>i\<bar> < 10 ^ 19" using a by (simp add: abs_if)
  then have "nat \<bar>i\<bar> < nat (10 ^ 19)" by (simp add: nat_less_iff)
  then have "nat \<bar>i\<bar> < 10 ^ 19" by simp
  then have "length (dec (nat \<bar>i\<bar>)) \<le> 19" by (intro dec_length) simp_all
  then show ?thesis by (auto simp: show_int_def abs_if)
qed

lemma fmt_ld_length: "length (fmt_ld x) \<le> 20"
proof -
  have "- (2 ^ 63) \<le> sint x" "sint x < 2 ^ 63"
    using sint_ge [of x] sint_lt [of x] by simp_all
  then have "- (10 ^ 19) < sint x" "sint x < 10 ^ 19" by simp_all
  then show ?thesis unfolding fmt_ld_def by (rule show_int_length)
qed

lemma fmt_ld_period: "fmt_ld 100000 = ''100000''"
  by (simp add: fmt_ld_def show_int_def dec.simps)

lemma sint_quota:
  fixes p :: c_int
  assumes "- 2147483 \<le> sint p" "sint p \<le> 2147483"
  shows "sint (scast (p * 1000) :: c_long) = sint p * 1000"
proof -
  have "sint (p * 1000) = signed_take_bit 31 (sint p * 1000)"
    by (simp add: sint_word_ariths)
  also have "\<dots> = sint p * 1000"
    using assms by (intro signed_take_bit_int_eq_self) simp_all
  finally have "sint (p * 1000) = sint p * 1000" .
  moreover have "sint (scast (p * 1000) :: c_long) = sint (p * 1000)"
    by (simp add: sint_up_scast is_up)
  ultimately show ?thesis by simp
qed

lemma cpu_max_value_eq:
  assumes "- 2147483 \<le> sint p" "sint p \<le> 2147483"
  shows "cpu_max_value p = show_int (sint p * 1000) @ '' 100000''"
proof -
  have "length (fmt_ld (scast (p * 1000)) @ '' '' @ fmt_ld 100000) \<le> 127"
    using fmt_ld_length [of "scast (p * 1000)"] by (simp add: fmt_ld_period)
  then have "cpu_max_value p = fmt_ld (scast (p * 1000)) @ '' '' @ fmt_ld 100000"
    unfolding cpu_max_value_def Let_def snprintf_def by simp
  also have "\<dots> = show_int (sint p * 1000) @ '' 100000''"
    by (simp add: fmt_ld_period) (simp add: fmt_ld_def sint_quota [OF assms])
  finally show ?thesis .
qed

lemma show_int_50000: "show_int 50000 = ''50000''"
  by (simp add: show_int_def dec.simps)

lemma show_int_100000: "show_int 100000 = ''100000''"
  by (simp add: show_int_def dec.simps)

subsection \<open>The child\<close>

lemma finish_fields [simp]:
  "trace (finish r h) = trace h @ exit_calls r"
  "paths (finish r h) = paths h"
  "written (finish r h) = written h"
  "programs (finish r h) = programs h"
  "fault (finish r h) = fault h"
  by (simp_all add: finish_def exit_calls_def split: run.splits)

lemma join_cgroup_spec:
  "\<exists>J. trace (join_cgroup nm pr h) = trace h @ J \<and> join_calls nm pr J
     \<and> fault (join_cgroup nm pr h) = fault h \<and> programs (join_cgroup nm pr h) = programs h
     \<and> paths h \<subseteq> paths (join_cgroup nm pr h)"
proof -
  obtain f ha where F: "sys_fopen (cgroup_procs_path nm) h = (f, ha)" by fastforce
  note f = sys_fopen_spec [OF F]
  from f consider e where "f = Err e" | "f = Ok 1" by blast
  then show ?thesis
  proof cases
    case 1
    with F have "join_cgroup nm pr h = ha" by (simp add: join_cgroup_def)
    with f 1 show ?thesis by (auto simp: join_calls_def)
  next
    case 2
    obtain r hb where P: "sys_fprintf (cgroup_procs_path nm) (snprintf 32 (fmt_d (pid pr))) ha = (r, hb)"
      by fastforce
    obtain c hc where C: "sys_fclose (cgroup_procs_path nm)
        (buffered r (snprintf 32 (fmt_d (pid pr)))) hb = (c, hc)" by fastforce
    from F 2 P C have j: "join_cgroup nm pr h = hc" by (simp add: join_cgroup_def)
    from f 2 sys_fprintf_spec [OF P] sys_fclose_spec [OF C]
    have "trace hc = trace h @ [(Fopen (cgroup_procs_path nm), Ok 1),
        (Fprintf (cgroup_procs_path nm) (snprintf 32 (fmt_d (pid pr))), r),
        (Fclose (cgroup_procs_path nm), c)]"
      "fault hc = fault h" "programs hc = programs h" "paths h \<subseteq> paths hc"
      by auto
    with j show ?thesis by (auto simp: join_calls_def)
  qed
qed

lemma sys_chroot_spec:
  assumes "sys_chroot p pr h = (c, pr1, h2)"
  shows "h2 = log (Chroot p) c h
     \<and> (c = Ok 0 \<and> pr1 = pr\<lparr>root := p\<rparr>
        \<or> (\<exists>e. c = Err e \<and> pr1 = pr
              \<and> (p \<in> paths h \<longrightarrow> fault h (length (trace h)) (Chroot p) = Some e)))"
  using assms unfolding sys_chroot_def
  by (auto elim!: stepE split: if_splits prod.splits ret.splits)

lemma sys_chdir_spec:
  assumes "sys_chdir p pr h = (d, pr2, h3)"
  shows "h3 = log (Chdir p) d h
     \<and> (d = Ok 0 \<and> pr2 = pr\<lparr>cwd := p\<rparr>
        \<or> (\<exists>e. d = Err e \<and> pr2 = pr \<and> fault h (length (trace h)) (Chdir p) = Some e))"
  using assms unfolding sys_chdir_def
  by (auto elim!: stepE split: if_splits prod.splits ret.splits)

lemma sys_mount_spec:
  assumes "sys_mount s t f h = (m, h4)"
  shows "h4 = log (Mount s t f) m h"
  using assms unfolding sys_mount_def by (auto elim!: stepE)

lemma sys_execl_spec:
  assumes "sys_execl path args pr h = (x, h5)"
  shows "(\<exists>e. x = None \<and> h5 = log (Execl path args) (Err e) h
            \<and> (programs h (root pr) path = None
               \<or> fault h (length (trace h)) (Execl path args) = Some e))
       \<or> (\<exists>prog. x = Some (prog args) \<and> h5 = log (Execl path args) (Ok 0) h
            \<and> programs h (root pr) path = Some prog)"
  using assms unfolding sys_execl_def
  by (auto elim!: stepE split: if_splits prod.splits ret.splits option.splits)

lemma child_function_unfold:
  "child_function config pr h =
     (case sys_chroot (rootfs_path config) pr (join_cgroup (name config) pr h) of
        (c, pr1, h2) \<Rightarrow>
          if retval c \<noteq> 0 then (Terminates 1, pr1, finish (Terminates 1) h2)
          else
            (case sys_chdir ''/'' pr1 h2 of
               (d, pr2, h3) \<Rightarrow>
                 (case sys_mount ''proc'' ''/proc'' ''proc'' h3 of
                    (m, h4) \<Rightarrow>
                      (case sys_execl ''/bin/bash'' [''bash'', ''-c'', command config] pr2 h4 of
                         (None, h5) \<Rightarrow> (Terminates 1, pr2, finish (Terminates 1) h5)
                       | (Some r, h5) \<Rightarrow> (r, pr2, finish r h5)))))"
  unfolding child_function_def join_cgroup_def Let_def ..

lemma child_noroot:
  "sys_chroot (rootfs_path config) pr (join_cgroup (name config) pr h) = (Err e, pr1, h2) \<Longrightarrow>
   child_function config pr h = (Terminates 1, pr1, finish (Terminates 1) h2)"
  by (simp add: child_function_unfold)

lemma child_noexec:
  "sys_chroot (rootfs_path config) pr (join_cgroup (name config) pr h) = (Ok 0, pr1, h2) \<Longrightarrow>
   sys_chdir ''/'' pr1 h2 = (d, pr2, h3) \<Longrightarrow>
   sys_mount ''proc'' ''/proc'' ''proc'' h3 = (m, h4) \<Longrightarrow>
   sys_execl ''/bin/bash'' [''bash'', ''-c'', command config] pr2 h4 = (None, h5) \<Longrightarrow>
   child_function config pr h = (Terminates 1, pr2, finish (Terminates 1) h5)"
  by (simp add: child_function_unfold)

lemma child_exec:
  "sys_chroot (rootfs_path config) pr (join_cgroup (name config) pr h) = (Ok 0, pr1, h2) \<Longrightarrow>
   sys_chdir ''/'' pr1 h2 = (d, pr2, h3) \<Longrightarrow>
   sys_mount ''proc'' ''/proc'' ''proc'' h3 = (m, h4) \<Longrightarrow>
   sys_execl ''/bin/bash'' [''bash'', ''-c'', command config] pr2 h4 = (Some r, h5) \<Longrightarrow>
   child_function config pr h = (r, pr2, finish r h5)"
  by (simp add: child_function_unfold)

lemma child_function_cases:
  assumes "child_function config pr h = (r, pr', h')"
  obtains (noroot) e h2 where
      "sys_chroot (rootfs_path config) pr (join_cgroup (name config) pr h) = (Err e, pr', h2)"
      "r = Terminates 1" "h' = finish (Terminates 1) h2"
  | (noexec) pr1 h2 d h3 m h4 h5 where
      "sys_chroot (rootfs_path config) pr (join_cgroup (name config) pr h) = (Ok 0, pr1, h2)"
      "sys_chdir ''/'' pr1 h2 = (d, pr', h3)"
      "sys_mount ''proc'' ''/proc'' ''proc'' h3 = (m, h4)"
      "sys_execl ''/bin/bash'' [''bash'', ''-c'', command config] pr' h4 = (None, h5)"
      "r = Terminates 1" "h' = finish (Terminates 1) h5"
  | (exec) pr1 h2 d h3 m h4 h5 where
      "sys_chroot (rootfs_path config) pr (join_cgroup (name config) pr h) = (Ok 0, pr1, h2)"
      "sys_chdir ''/'' pr1 h2 = (d, pr', h3)"
      "sys_mount ''proc'' ''/proc'' ''proc'' h3 = (m, h4)"
      "sys_execl ''/bin/bash'' [''bash'', ''-c'', command config] pr' h4 = (Some r, h5)"
      "h' = finish r h5"
proof -
  obtain c pr1 h2 where
    R: "sys_chroot (rootfs_path config) pr (join_cgroup (name config) pr h) = (c, pr1, h2)"
    using prod_cases3 by blast
  from sys_chroot_spec [OF R] consider "c = Ok 0" | e where "c = Err e" by blast
  then show thesis
  proof cases
    case 2
    with R have R': "sys_chroot (rootfs_path config) pr (join_cgroup (name config) pr h) = (Err e, pr1, h2)"
      by simp
    from child_noroot [OF R'] assms have "r = Terminates 1" "pr1 = pr'" "h' = finish (Terminates 1) h2"
      by simp_all
    with R' show thesis by (simp add: noroot)
  next
    case 1
    with R have R': "sys_chroot (rootfs_path config) pr (join_cgroup (name config) pr h) = (Ok 0, pr1, h2)"
      by simp
    obtain d pr2 h3 where D: "sys_chdir ''/'' pr1 h2 = (d, pr2, h3)"
      using prod_cases3 by blast
    obtain m h4 where M: "sys_mount ''proc'' ''/proc'' ''proc'' h3 = (m, h4)" by fastforce
    obtain x h5 where X: "sys_execl ''/bin/bash'' [''bash'', ''-c'', command config] pr2 h4 = (x, h5)"
      by fastforce
    show thesis
    proof (cases x)
      case None
      with X have X': "sys_execl ''/bin/bash'' [''bash'', ''-c'', command config] pr2 h4 = (None, h5)"
        by simp
      from child_noexec [OF R' D M X'] assms
      have "r = Terminates 1" "pr2 = pr'" "h' = finish (Terminates 1) h5" by simp_all
      with R' D M X' show thesis by (simp add: noexec)
    next
      case (Some r')
      with X have X': "sys_execl ''/bin/bash'' [''bash'', ''-c'', command config] pr2 h4 = (Some r', h5)"
        by simp
      from child_exec [OF R' D M X'] assms
      have "r' = r" "pr2 = pr'" "h' = finish r h5" by simp_all
      with R' D M X' show thesis by (simp add: exec)
    qed
  qed
qed

lemma child_function_shape:
  assumes "child_function config pr h = (r, pr', h')"
  shows "\<exists>J. join_calls (name config) pr J \<and> fault h' = fault h \<and> programs h' = programs h
     \<and> paths h \<subseteq> paths h'
     \<and> ((\<exists>e. calls_since h h' = J @ [(Chroot (rootfs_path config), Err e), (Exit 1, Ok 0)]
              \<and> r = Terminates 1 \<and> pr' = pr
              \<and> (rootfs_path config \<in> paths h \<longrightarrow>
                    (\<exists>n. fault h n (Chroot (rootfs_path config)) = Some e)))
        \<or> (\<exists>d m. root pr' = rootfs_path config \<and> pid pr' = pid pr
              \<and> (d = Ok 0 \<and> cwd pr' = ''/'' \<or> (\<exists>e. d = Err e) \<and> cwd pr' = cwd pr)
              \<and> ((\<exists>e. calls_since h h' =
                        J @ [(Chroot (rootfs_path config), Ok 0), (Chdir ''/'', d),
                             (Mount ''proc'' ''/proc'' ''proc'', m), (bash_call config, Err e),
                             (Exit 1, Ok 0)]
                      \<and> r = Terminates 1
                      \<and> (programs h (rootfs_path config) ''/bin/bash'' = None
                           \<or> (\<exists>n. fault h n (bash_call config) = Some e)))
                 \<or> (\<exists>prog. calls_since h h' =
                        J @ [(Chroot (rootfs_path config), Ok 0), (Chdir ''/'', d),
                             (Mount ''proc'' ''/proc'' ''proc'', m), (bash_call config, Ok 0)]
                          @ exit_calls r
                      \<and> programs h (rootfs_path config) ''/bin/bash'' = Some prog
                      \<and> r = prog [''bash'', ''-c'', command config]))))"
proof -
  let ?hj = "join_cgroup (name config) pr h"
  from join_cgroup_spec [of "name config" pr h] obtain J where
    J: "trace ?hj = trace h @ J" "join_calls (name config) pr J"
       "fault ?hj = fault h" "programs ?hj = programs h" "paths h \<subseteq> paths ?hj"
    by blast
  from assms show ?thesis
  proof (cases rule: child_function_cases)
    case (noroot e h2)
    note c = sys_chroot_spec [OF noroot(1)]
    from c J noroot have t: "trace h' = trace h @ J @ [(Chroot (rootfs_path config), Err e), (Exit 1, Ok 0)]"
      by (simp add: exit_calls_def)
    from c J have "rootfs_path config \<in> paths h \<longrightarrow>
        (\<exists>n. fault h n (Chroot (rootfs_path config)) = Some e)" by auto
    moreover from t have "calls_since h h' = J @ [(Chroot (rootfs_path config), Err e), (Exit 1, Ok 0)]"
      by (simp add: calls_since_def)
    moreover from c J noroot have "fault h' = fault h" "programs h' = programs h"
      "paths h \<subseteq> paths h'" "pr' = pr" by auto
    ultimately show ?thesis using J(2) noroot(2) by blast
  next
    case (noexec pr1 h2 d h3 m h4 h5)
    note c = sys_chroot_spec [OF noexec(1)] and cd = sys_chdir_spec [OF noexec(2)]
      and mt = sys_mount_spec [OF noexec(3)] and ex = sys_execl_spec [OF noexec(4)]
    from c have pr1: "pr1 = pr\<lparr>root := rootfs_path config\<rparr>" by auto
    from cd pr1 have pr': "root pr' = rootfs_path config" "pid pr' = pid pr"
      "d = Ok 0 \<and> cwd pr' = ''/'' \<or> (\<exists>e. d = Err e) \<and> cwd pr' = cwd pr" by auto
    from c cd mt J have h4: "trace h4 = trace h @ J @ [(Chroot (rootfs_path config), Ok 0),
        (Chdir ''/'', d), (Mount ''proc'' ''/proc'' ''proc'', m)]"
      "fault h4 = fault h" "programs h4 = programs h" "paths h \<subseteq> paths h4" by auto
    from ex obtain e where e: "h5 = log (bash_call config) (Err e) h4"
      "programs h4 (root pr') ''/bin/bash'' = None
        \<or> fault h4 (length (trace h4)) (bash_call config) = Some e"
      by (auto simp: bash_call_def)
    from e h4 noexec(6) have "calls_since h h' = J @ [(Chroot (rootfs_path config), Ok 0),
        (Chdir ''/'', d), (Mount ''proc'' ''/proc'' ''proc'', m), (bash_call config, Err e),
        (Exit 1, Ok 0)]"
      by (simp add: calls_since_def exit_calls_def)
    moreover from e(2) h4 pr' have "programs h (rootfs_path config) ''/bin/bash'' = None
        \<or> (\<exists>n. fault h n (bash_call config) = Some e)" by auto
    moreover from e h4 noexec(6) have "fault h' = fault h" "programs h' = programs h"
      "paths h \<subseteq> paths h'" by auto
    ultimately show ?thesis using J(2) noexec(5) pr' by blast
  next
    case (exec pr1 h2 d h3 m h4 h5)
    note c = sys_chroot_spec [OF exec(1)] and cd = sys_chdir_spec [OF exec(2)]
      and mt = sys_mount_spec [OF exec(3)] and ex = sys_execl_spec [OF exec(4)]
    from c have pr1: "pr1 = pr\<lparr>root := rootfs_path config\<rparr>" by auto
    from cd pr1 have pr': "root pr' = rootfs_path config" "pid pr' = pid pr"
      "d = Ok 0 \<and> cwd pr' = ''/'' \<or> (\<exists>e. d = Err e) \<and> cwd pr' = cwd pr" by auto
    from c cd mt J have h4: "trace h4 = trace h @ J @ [(Chroot (rootfs_path config), Ok 0),
        (Chdir ''/'', d), (Mount ''proc'' ''/proc'' ''proc'', m)]"
      "fault h4 = fault h" "programs h4 = programs h" "paths h \<subseteq> paths h4" by auto
    from ex obtain prog where p: "r = prog [''bash'', ''-c'', command config]"
      "h5 = log (bash_call config) (Ok 0) h4" "programs h4 (root pr') ''/bin/bash'' = Some prog"
      by (auto simp: bash_call_def)
    from p h4 exec(5) have "calls_since h h' = J @ [(Chroot (rootfs_path config), Ok 0),
        (Chdir ''/'', d), (Mount ''proc'' ''/proc'' ''proc'', m), (bash_call config, Ok 0)]
        @ exit_calls r"
      by (simp add: calls_since_def)
    moreover from p(3) h4 pr' have "programs h (rootfs_path config) ''/bin/bash'' = Some prog"
      by simp
    moreover from p h4 exec(5) have "fault h' = fault h" "programs h' = programs h"
      "paths h \<subseteq> paths h'" by auto
    ultimately show ?thesis using J(2) p(1) pr' by blast
  qed
qed

subsection \<open>The supervisor\<close>

lemma config_of_fields [simp]:
  "name (config_of argv) = argv ! 1"
  "rootfs_path (config_of argv) = argv ! 2"
  "command (config_of argv) = argv ! 3"
  "memory_limit (config_of argv) = 536870912"
  "cpu_limit (config_of argv) = 50"
  by (simp_all add: config_of_def)

lemma sys_malloc_spec:
  assumes "sys_malloc n h = (r, h')"
  shows "h' = log (Malloc n) r h
     \<and> (r = Ok 1 \<or> (\<exists>e. r = Err e \<and> fault h (length (trace h)) (Malloc n) = Some e))"
  using assms unfolding sys_malloc_def by (auto elim!: stepE)

lemma sys_clone_spec:
  assumes "sys_clone h = (r, h')"
  shows "trace h' = trace h @ [(Clone, r)] \<and> fault h' = fault h \<and> programs h' = programs h
     \<and> paths h' = paths h \<and> written h' = written h
     \<and> (r = Ok (1 + int (next_pid h))
        \<or> (\<exists>e. r = Err e \<and> fault h (length (trace h)) Clone = Some e))"
  using assms unfolding sys_clone_def by (auto elim!: stepE)

lemma sys_waitpid_spec:
  assumes "sys_waitpid p h = (r, h')"
  shows "h' = log (Waitpid p) r h"
  using assms unfolding sys_waitpid_def by (auto elim!: stepE)

lemma cleanup_cgroups_spec:
  "\<exists>r. trace (cleanup_cgroups nm h) = trace h @ [(Rmdir (cleanup_path nm), r)]
     \<and> fault (cleanup_cgroups nm h) = fault h \<and> programs (cleanup_cgroups nm h) = programs h
     \<and> written (cleanup_cgroups nm h) = written h
     \<and> (r = Ok 0 \<and> cleanup_path nm \<in> paths h
          \<and> paths (cleanup_cgroups nm h) = paths h - {cleanup_path nm}
        \<or> (\<exists>e. r = Err e) \<and> paths (cleanup_cgroups nm h) = paths h)"
proof -
  obtain r h' where R: "sys_rmdir (cleanup_path nm) h = (r, h')" by fastforce
  then have "cleanup_cgroups nm h = h'" by (simp add: cleanup_cgroups_def)
  with R show ?thesis unfolding sys_rmdir_def by (auto elim!: stepE split: if_splits)
qed

lemma main_unfold:
  "main self argv h =
     (if length argv < 4 then (Returned 1, h)
      else
        (case setup_cgroups (name (config_of argv)) (memory_limit (config_of argv))
                (cpu_limit (config_of argv)) h of
           (cgroups_enabled, h1) \<Rightarrow>
             (case sys_malloc (1024 * 1024) h1 of
                (Err e, h2) \<Rightarrow> (Returned 1, cleanup_cgroups (name (config_of argv)) h2)
              | (Ok stack, h2) \<Rightarrow>
                  (case sys_clone h2 of
                     (Err e, h3) \<Rightarrow>
                       (Returned 1, cleanup_cgroups (name (config_of argv)) (sys_free h3))
                   | (Ok child_pid, h3) \<Rightarrow>
                       (case child_function (config_of argv) (self\<lparr>pid := 1\<rparr>) h3 of
                          (RunsForever, pr, h4) \<Rightarrow> (Blocked, h4)
                        | (Terminates status, pr, h4) \<Rightarrow>
                            (case sys_waitpid child_pid h4 of
                               (w, h5) \<Rightarrow>
                                 (Returned 0,
                                  cleanup_cgroups (name (config_of argv)) (sys_free h5))))))))"
  unfolding main_def Let_def config_of_def ..

lemma main_usage: "length argv < 4 \<Longrightarrow> main self argv h = (Returned 1, h)"
  by (simp add: main_unfold)

lemma main_nomem:
  "4 \<le> length argv \<Longrightarrow>
   setup_cgroups (argv ! 1) 536870912 50 h = (ok, h1) \<Longrightarrow>
   sys_malloc 1048576 h1 = (Err e, h2) \<Longrightarrow>
   main self argv h = (Returned 1, cleanup_cgroups (argv ! 1) h2)"
  by (simp add: main_unfold)

lemma main_noclone:
  "4 \<le> length argv \<Longrightarrow>
   setup_cgroups (argv ! 1) 536870912 50 h = (ok, h1) \<Longrightarrow>
   sys_malloc 1048576 h1 = (Ok st, h2) \<Longrightarrow>
   sys_clone h2 = (Err e, h3) \<Longrightarrow>
   main self argv h = (Returned 1, cleanup_cgroups (argv ! 1) (sys_free h3))"
  by (simp add: main_unfold)

lemma main_blocked:
  "4 \<le> length argv \<Longrightarrow>
   setup_cgroups (argv ! 1) 536870912 50 h = (ok, h1) \<Longrightarrow>
   sys_malloc 1048576 h1 = (Ok st, h2) \<Longrightarrow>
   sys_clone h2 = (Ok p, h3) \<Longrightarrow>
   child_function (config_of argv) (self\<lparr>pid := 1\<rparr>) h3 = (RunsForever, pr, h4) \<Longrightarrow>
   main self argv h = (Blocked, h4)"
  by (simp add: main_unfold)

lemma main_waited:
  "4 \<le> length argv \<Longrightarrow>
   setup_cgroups (argv ! 1) 536870912 50 h = (ok, h1) \<Longrightarrow>
   sys_malloc 1048576 h1 = (Ok st, h2) \<Longrightarrow>
   sys_clone h2 = (Ok p, h3) \<Longrightarrow>
   child_function (config_of argv) (self\<lparr>pid := 1\<rparr>) h3 = (Terminates s, pr, h4) \<Longrightarrow>
   sys_waitpid p h4 = (w, h5) \<Longrightarrow>
   main self argv h = (Returned 0, cleanup_cgroups (argv ! 1) (sys_free h5))"
  by (simp add: main_unfold)

lemma main_cases:
  assumes "main self argv h = (out, h')"
  obtains (usage) "length argv < 4" "out = Returned 1" "h' = h"
  | (nomem) ok h1 e h2 where "4 \<le> length argv"
      "setup_cgroups (argv ! 1) 536870912 50 h = (ok, h1)"
      "sys_malloc 1048576 h1 = (Err e, h2)"
      "out = Returned 1" "h' = cleanup_cgroups (argv ! 1) h2"
  | (noclone) ok h1 h2 e h3 where "4 \<le> length argv"
      "setup_cgroups (argv ! 1) 536870912 50 h = (ok, h1)"
      "sys_malloc 1048576 h1 = (Ok 1, h2)"
      "sys_clone h2 = (Err e, h3)"
      "out = Returned 1" "h' = cleanup_cgroups (argv ! 1) (sys_free h3)"
  | (blocked) ok h1 h2 p h3 pr where "4 \<le> length argv"
      "setup_cgroups (argv ! 1) 536870912 50 h = (ok, h1)"
      "sys_malloc 1048576 h1 = (Ok 1, h2)"
      "sys_clone h2 = (Ok p, h3)"
      "child_function (config_of argv) (self\<lparr>pid := 1\<rparr>) h3 = (RunsForever, pr, h')"
      "out = Blocked"
  | (waited) ok h1 h2 p h3 s pr h4 w h5 where "4 \<le> length argv"
      "setup_cgroups (argv ! 1) 536870912 50 h = (ok, h1)"
      "sys_malloc 1048576 h1 = (Ok 1, h2)"
      "sys_clone h2 = (Ok p, h3)"
      "child_function (config_of argv) (self\<lparr>pid := 1\<rparr>) h3 = (Terminates s, pr, h4)"
      "sys_waitpid p h4 = (w, h5)"
      "out = Returned 0" "h' = cleanup_cgroups (argv ! 1) (sys_free h5)"
proof (cases "length argv < 4")
  case True
  with main_usage [OF True, of self h] assms show thesis by (simp add: usage)
next
  case False
  then have len: "4 \<le> length argv" by simp
  obtain ok h1 where S: "setup_cgroups (argv ! 1) 536870912 50 h = (ok, h1)" by fastforce
  obtain a h2 where A: "sys_malloc 1048576 h1 = (a, h2)" by fastforce
  from sys_malloc_spec [OF A] consider "a = Ok 1" | e where "a = Err e" by blast
  then show thesis
  proof cases
    case 2
    with A have A': "sys_malloc 1048576 h1 = (Err e, h2)" by simp
    from main_nomem [OF len S A', of self] assms
    have "out = Returned 1" "h' = cleanup_cgroups (argv ! 1) h2" by simp_all
    with len S A' show thesis by (rule nomem)
  next
    case 1
    with A have A': "sys_malloc 1048576 h1 = (Ok 1, h2)" by simp
    obtain c h3 where C: "sys_clone h2 = (c, h3)" by fastforce
    from sys_clone_spec [OF C] consider p where "c = Ok p" | e where "c = Err e" by blast
    then show thesis
    proof cases
      case 2
      with C have C': "sys_clone h2 = (Err e, h3)" by simp
      from main_noclone [OF len S A' C', of self] assms
      have "out = Returned 1" "h' = cleanup_cgroups (argv ! 1) (sys_free h3)" by simp_all
      with len S A' C' show thesis by (rule noclone)
    next
      case 1
      with C have C': "sys_clone h2 = (Ok p, h3)" by simp
      obtain r pr h4 where
        F: "child_function (config_of argv) (self\<lparr>pid := 1\<rparr>) h3 = (r, pr, h4)"
        using prod_cases3 by blast
      show thesis
      proof (cases r)
        case RunsForever
        with F have F': "child_function (config_of argv) (self\<lparr>pid := 1\<rparr>) h3 = (RunsForever, pr, h4)"
          by simp
        from main_blocked [OF len S A' C' F'] assms have "out = Blocked" "h4 = h'" by simp_all
        with len S A' C' F' show thesis by (simp add: blocked)
      next
        case (Terminates s)
        with F have F': "child_function (config_of argv) (self\<lparr>pid := 1\<rparr>) h3 = (Terminates s, pr, h4)"
          by simp
        obtain w h5 where W: "sys_waitpid p h4 = (w, h5)" by fastforce
        from main_waited [OF len S A' C' F' W] assms
        have "out = Returned 0" "h' = cleanup_cgroups (argv ! 1) (sys_free h5)" by simp_all
        with len S A' C' F' W show thesis by (rule waited)
      qed
    qed
  qed
qed

lemma join_calls_kind: "join_calls nm pr J \<Longrightarrow> \<forall>c\<in>set J. is_child_call (fst c)"
  by (auto simp: join_calls_def)

lemma exit_calls_kind: "\<forall>c\<in>set (exit_calls r). is_child_call (fst c)"
  by (auto simp: exit_calls_def split: run.splits)

lemma child_function_kind:
  assumes "child_function config pr h = (r, pr', h')"
  shows "trace h' = trace h @ calls_since h h' \<and> (\<forall>c\<in>set (calls_since h h'). is_child_call (fst c))"
proof -
  from child_function_shape [OF assms] obtain J where
    J: "join_calls (name config) pr J"
    and c: "(\<exists>e. calls_since h h' = J @ [(Chroot (rootfs_path config), Err e), (Exit 1, Ok 0)])
       \<or> (\<exists>d m e. calls_since h h' =
                        J @ [(Chroot (rootfs_path config), Ok 0), (Chdir ''/'', d),
                             (Mount ''proc'' ''/proc'' ''proc'', m), (bash_call config, Err e),
                             (Exit 1, Ok 0)])
       \<or> (\<exists>d m. calls_since h h' =
                        J @ [(Chroot (rootfs_path config), Ok 0), (Chdir ''/'', d),
                             (Mount ''proc'' ''/proc'' ''proc'', m), (bash_call config, Ok 0)]
                          @ exit_calls r)"
    by blast
  have k: "\<forall>c\<in>set (calls_since h h'). is_child_call (fst c)"
    using c join_calls_kind [OF J] exit_calls_kind [of r]
    by (elim disjE exE) (auto simp: bash_call_def)
  have "\<exists>ev. trace h' = trace h @ ev"
    using assms
  proof (cases rule: child_function_cases)
    case (noroot e h2)
    with join_cgroup_spec [of "name config" pr h] sys_chroot_spec [OF noroot(1)]
    show ?thesis by auto
  next
    case (noexec pr1 h2 d h3 m h4 h5)
    with sys_chroot_spec [OF noexec(1)] sys_chdir_spec [OF noexec(2)] sys_mount_spec [OF noexec(3)]
      sys_execl_spec [OF noexec(4)] join_cgroup_spec [of "name config" pr h]
    show ?thesis by auto
  next
    case (exec pr1 h2 d h3 m h4 h5)
    with sys_chroot_spec [OF exec(1)] sys_chdir_spec [OF exec(2)] sys_mount_spec [OF exec(3)]
      sys_execl_spec [OF exec(4)] join_cgroup_spec [of "name config" pr h]
    show ?thesis by auto
  qed
  then have "trace h' = trace h @ calls_since h h'"
    by (auto simp: calls_since_def)
  with k show ?thesis by simp
qed

lemma extendsD:
  "extends P h h' \<Longrightarrow> fault h' = fault h \<and> programs h' = programs h
     \<and> trace h' = trace h @ calls_since h h' \<and> (\<forall>c\<in>set (calls_since h h'). P (fst c))"
  unfolding extends_def calls_since_def by auto

lemma calls_since_chain:
  assumes "trace h1 = trace h @ calls_since h h1" and "trace h' = trace h1 @ ev"
  shows "calls_since h h' = calls_since h h1 @ ev"
proof -
  from assms have "trace h' = trace h @ (calls_since h h1 @ ev)" by simp
  then show ?thesis by (rule calls_since_append)
qed

lemma main_shape:
  assumes "main self argv h = (out, h')" and "4 \<le> length argv"
  obtains (fail_malloc) ok h1 e r n where
      "setup_cgroups (argv ! 1) 536870912 50 h = (ok, h1)"
      "calls_since h h' = calls_since h h1 @
         [(Malloc 1048576, Err e), (Rmdir (cleanup_path (argv ! 1)), r)]"
      "out = Returned 1" "fault h n (Malloc 1048576) = Some e"
  | (fail_clone) ok h1 e r n where
      "setup_cgroups (argv ! 1) 536870912 50 h = (ok, h1)"
      "calls_since h h' = calls_since h h1 @
         [(Malloc 1048576, Ok 1), (Clone, Err e), (Free, Ok 0),
          (Rmdir (cleanup_path (argv ! 1)), r)]"
      "out = Returned 1" "fault h n Clone = Some e"
  | (hung) ok h1 p h3 pr where
      "setup_cgroups (argv ! 1) 536870912 50 h = (ok, h1)"
      "child_function (config_of argv) (self\<lparr>pid := 1\<rparr>) h3 = (RunsForever, pr, h')"
      "fault h3 = fault h" "programs h3 = programs h" "paths h \<subseteq> paths h3"
      "calls_since h h' = calls_since h h1 @ [(Malloc 1048576, Ok 1), (Clone, Ok p)]
         @ calls_since h3 h'"
      "out = Blocked"
  | (finished) ok h1 p h3 s pr h4 w r where
      "setup_cgroups (argv ! 1) 536870912 50 h = (ok, h1)"
      "child_function (config_of argv) (self\<lparr>pid := 1\<rparr>) h3 = (Terminates s, pr, h4)"
      "fault h3 = fault h" "programs h3 = programs h" "paths h \<subseteq> paths h3"
      "calls_since h h' = calls_since h h1 @ [(Malloc 1048576, Ok 1), (Clone, Ok p)]
         @ calls_since h3 h4
         @ [(Waitpid p, w), (Free, Ok 0), (Rmdir (cleanup_path (argv ! 1)), r)]"
      "out = Returned 0"
  using assms(1)
proof (cases rule: main_cases)
  case usage
  with assms(2) show ?thesis by simp
next
  case (nomem ok h1 e h2)
  note s = extendsD [OF conjunct1 [OF setup_cgroups_extends [OF nomem(2)]]]
  note m = sys_malloc_spec [OF nomem(3)]
  from cleanup_cgroups_spec [of "argv ! 1" h2] obtain r where
    r: "trace h' = trace h2 @ [(Rmdir (cleanup_path (argv ! 1)), r)]"
    using nomem(5) by auto
  from m r have "trace h' = trace h1 @ [(Malloc 1048576, Err e), (Rmdir (cleanup_path (argv ! 1)), r)]"
    by simp
  with s have "calls_since h h' = calls_since h h1 @
      [(Malloc 1048576, Err e), (Rmdir (cleanup_path (argv ! 1)), r)]"
    by (intro calls_since_chain) simp_all
  moreover from s m obtain n where "fault h n (Malloc 1048576) = Some e" by auto
  ultimately show ?thesis using nomem(2,4) by (intro fail_malloc)
next
  case (noclone ok h1 h2 e h3)
  note s = extendsD [OF conjunct1 [OF setup_cgroups_extends [OF noclone(2)]]]
  note m = sys_malloc_spec [OF noclone(3)]
  note c = sys_clone_spec [OF noclone(4)]
  from cleanup_cgroups_spec [of "argv ! 1" "sys_free h3"] obtain r where
    r: "trace h' = trace (sys_free h3) @ [(Rmdir (cleanup_path (argv ! 1)), r)]"
    using noclone(6) by auto
  from m c r have "trace h' = trace h1 @
      [(Malloc 1048576, Ok 1), (Clone, Err e), (Free, Ok 0), (Rmdir (cleanup_path (argv ! 1)), r)]"
    by (simp add: sys_free_def)
  with s have "calls_since h h' = calls_since h h1 @
      [(Malloc 1048576, Ok 1), (Clone, Err e), (Free, Ok 0), (Rmdir (cleanup_path (argv ! 1)), r)]"
    by (intro calls_since_chain) simp_all
  moreover from s m c obtain n where "fault h n Clone = Some e" by auto
  ultimately show ?thesis using noclone(2,5) by (intro fail_clone)
next
  case (blocked ok h1 h2 p h3 pr)
  note s = extendsD [OF conjunct1 [OF setup_cgroups_extends [OF blocked(2)]]]
  note sp = conjunct2 [OF setup_cgroups_extends [OF blocked(2)]]
  note m = sys_malloc_spec [OF blocked(3)]
  note c = sys_clone_spec [OF blocked(4)]
  note k = child_function_kind [OF blocked(5)]
  from s m c have h3: "trace h3 = trace h1 @ [(Malloc 1048576, Ok 1), (Clone, Ok p)]"
    "fault h3 = fault h" "programs h3 = programs h" by auto
  from sp m c have p3: "paths h \<subseteq> paths h3" by auto
  from h3(1) k have "trace h' = trace h1 @ ([(Malloc 1048576, Ok 1), (Clone, Ok p)]
      @ calls_since h3 h')" by simp
  with s have "calls_since h h' = calls_since h h1 @ ([(Malloc 1048576, Ok 1), (Clone, Ok p)]
      @ calls_since h3 h')"
    by (intro calls_since_chain) simp_all
  then have "calls_since h h' = calls_since h h1 @ [(Malloc 1048576, Ok 1), (Clone, Ok p)]
      @ calls_since h3 h'" by simp
  with h3(2,3) p3 blocked(2,5,6) show ?thesis by (intro hung)
next
  case (waited ok h1 h2 p h3 s' pr h4 w h5)
  note s = extendsD [OF conjunct1 [OF setup_cgroups_extends [OF waited(2)]]]
  note sp = conjunct2 [OF setup_cgroups_extends [OF waited(2)]]
  note m = sys_malloc_spec [OF waited(3)]
  note c = sys_clone_spec [OF waited(4)]
  note k = child_function_kind [OF waited(5)]
  note wt = sys_waitpid_spec [OF waited(6)]
  from s m c have h3: "trace h3 = trace h1 @ [(Malloc 1048576, Ok 1), (Clone, Ok p)]"
    "fault h3 = fault h" "programs h3 = programs h" by auto
  from sp m c have p3: "paths h \<subseteq> paths h3" by auto
  from cleanup_cgroups_spec [of "argv ! 1" "sys_free h5"] obtain r where
    r: "trace h' = trace (sys_free h5) @ [(Rmdir (cleanup_path (argv ! 1)), r)]"
    using waited(8) by auto
  from h3(1) k wt r have "trace h' = trace h1 @ ([(Malloc 1048576, Ok 1), (Clone, Ok p)]
      @ calls_since h3 h4 @ [(Waitpid p, w), (Free, Ok 0), (Rmdir (cleanup_path (argv ! 1)), r)])"
    by (simp add: sys_free_def)
  with s have "calls_since h h' = calls_since h h1 @ ([(Malloc 1048576, Ok 1), (Clone, Ok p)]
      @ calls_since h3 h4 @ [(Waitpid p, w), (Free, Ok 0), (Rmdir (cleanup_path (argv ! 1)), r)])"
    by (intro calls_since_chain) simp_all
  then have "calls_since h h' = calls_since h h1 @ [(Malloc 1048576, Ok 1), (Clone, Ok p)]
      @ calls_since h3 h4 @ [(Waitpid p, w), (Free, Ok 0), (Rmdir (cleanup_path (argv ! 1)), r)]"
    by simp
  with h3(2,3) p3 waited(2,5,7) show ?thesis by (intro finished)
qed

lemma setup_cgroups_first:
  assumes "setup_cgroups nm mem p h = (ok, h1)"
  shows "\<exists>a S. calls_since h h1 = (Access ''/sys/fs/cgroup/cgroup.controllers'', a) # S"
  using assms
proof (cases rule: setup_cgroups_cases)
  case (unavailable e)
  from sys_access_spec [OF unavailable(1)] show ?thesis by (auto simp: calls_since_def)
next
  case (nodir hx e)
  from sys_access_spec [OF nodir(1)] sys_mkdir_spec [OF nodir(2)]
  show ?thesis by (auto simp: calls_since_def)
next
  case (limits hx m h2 s h3 w1 h4 w2)
  from sys_access_spec [OF limits(1)] sys_mkdir_spec [OF limits(2)]
  have t2: "trace h2 = trace h @ [(Access ''/sys/fs/cgroup/cgroup.controllers'', Ok 0), (Mkdir (cgroup_path nm), m)]"
    by auto
  have "extends is_file_call h2 h1"
    by (rule extends_trans [OF write_cgroup_file_extends(1) [OF limits(4)]],
        rule extends_trans [OF write_cgroup_file_extends(1) [OF limits(5)]],
        rule write_cgroup_file_extends(1) [OF limits(6)])
  then obtain ev where "trace h1 = trace h2 @ ev" unfolding extends_def by blast
  with t2 show ?thesis by (simp add: calls_since_def)
qed

lemma file_call_simps [simp]:
  "\<not> is_file_call (Rmdir q)" "\<not> is_file_call Clone" "\<not> is_file_call (Chroot q)"
  "\<not> is_file_call (Exit s)" "\<not> is_file_call (Execl q a)"
  "\<not> is_child_call (Rmdir q)" "\<not> is_child_call Clone" "\<not> is_child_call (Mkdir q)"
  by simp_all

lemma setup_calls_kind:
  assumes "setup_cgroups nm mem p h = (ok, h1)"
  shows "\<forall>c\<in>set (calls_since h h1). is_file_call (fst c)"
  using extendsD [OF conjunct1 [OF setup_cgroups_extends [OF assms]]] by simp

lemma not_in_file_calls:
  assumes "\<forall>c\<in>set S. is_file_call (fst c)" and "\<not> is_file_call x"
  shows "(x, r) \<notin> set S"
  using assms by force

lemma not_in_child_calls:
  assumes "\<forall>c\<in>set S. is_child_call (fst c)" and "\<not> is_child_call x"
  shows "(x, r) \<notin> set S"
  using assms by force

subsection \<open>Facts shared by the claims\<close>

lemma join_calls_no_exec [simp]:
  "join_calls nm pr J \<Longrightarrow> (Execl p a, x) \<notin> set J"
  "join_calls nm pr J \<Longrightarrow> (Chroot q, x) \<notin> set J"
  "join_calls nm pr J \<Longrightarrow> (Exit s, x) \<notin> set J"
  by (auto simp: join_calls_def)

lemma exit_calls_no_exec [simp]:
  "(Execl p a, x) \<notin> set (exit_calls r)" "(Chroot q, x) \<notin> set (exit_calls r)"
  by (auto simp: exit_calls_def split: run.splits)

lemma child_chroot_failed:
  assumes "child_function config pr h = (r, pr', h')"
    and "(Chroot q, Err e) \<in> set (calls_since h h')"
  shows "\<exists>J. calls_since h h' = J @ [(Chroot (rootfs_path config), Err e), (Exit 1, Ok 0)]
     \<and> q = rootfs_path config \<and> r = Terminates 1"
proof -
  from child_function_shape [OF assms(1)] obtain J where
    J: "join_calls (name config) pr J"
    and c: "(\<exists>e. calls_since h h' = J @ [(Chroot (rootfs_path config), Err e), (Exit 1, Ok 0)]
              \<and> r = Terminates 1)
        \<or> (\<exists>d m e. calls_since h h' =
                        J @ [(Chroot (rootfs_path config), Ok 0), (Chdir ''/'', d),
                             (Mount ''proc'' ''/proc'' ''proc'', m), (bash_call config, Err e),
                             (Exit 1, Ok 0)])
        \<or> (\<exists>d m. calls_since h h' =
                        J @ [(Chroot (rootfs_path config), Ok 0), (Chdir ''/'', d),
                             (Mount ''proc'' ''/proc'' ''proc'', m), (bash_call config, Ok 0)]
                          @ exit_calls r)"
    by blast
  from c consider
      (a) e' where "calls_since h h' = J @ [(Chroot (rootfs_path config), Err e'), (Exit 1, Ok 0)]"
        "r = Terminates 1"
    | (b) d m e' where "calls_since h h' =
                        J @ [(Chroot (rootfs_path config), Ok 0), (Chdir ''/'', d),
                             (Mount ''proc'' ''/proc'' ''proc'', m), (bash_call config, Err e'),
                             (Exit 1, Ok 0)]"
    | (c) d m where "calls_since h h' =
                        J @ [(Chroot (rootfs_path config), Ok 0), (Chdir ''/'', d),
                             (Mount ''proc'' ''/proc'' ''proc'', m), (bash_call config, Ok 0)]
                          @ exit_calls r"
    by blast
  then show ?thesis
  proof cases
    case a
    with assms(2) J have "q = rootfs_path config \<and> e = e'" by simp
    with a show ?thesis by blast
  next
    case b
    with assms(2) J show ?thesis by (simp add: bash_call_def)
  next
    case c
    with assms(2) J show ?thesis by (simp add: bash_call_def)
  qed
qed

lemma child_launch:
  assumes "child_function config pr h = (r, pr', h')"
    and "rootfs_path config \<in> paths h"
    and "programs h (rootfs_path config) ''/bin/bash'' = Some prog"
    and "\<forall>n. fault h n (Chroot (rootfs_path config)) = None"
    and "\<forall>n. fault h n (bash_call config) = None"
  shows "r = prog [''bash'', ''-c'', command config]
     \<and> (\<exists>J d m. join_calls (name config) pr J
          \<and> calls_since h h' =
               J @ [(Chroot (rootfs_path config), Ok 0), (Chdir ''/'', d),
                    (Mount ''proc'' ''/proc'' ''proc'', m), (bash_call config, Ok 0)]
                 @ exit_calls r)"
proof -
  from child_function_shape [OF assms(1)] obtain J where
    J: "join_calls (name config) pr J"
    and c: "(\<exists>e. rootfs_path config \<in> paths h \<longrightarrow>
                    (\<exists>n. fault h n (Chroot (rootfs_path config)) = Some e))
        \<or> (\<exists>d m. (\<exists>e. programs h (rootfs_path config) ''/bin/bash'' = None
                           \<or> (\<exists>n. fault h n (bash_call config) = Some e))
                 \<or> (\<exists>prog. calls_since h h' =
                        J @ [(Chroot (rootfs_path config), Ok 0), (Chdir ''/'', d),
                             (Mount ''proc'' ''/proc'' ''proc'', m), (bash_call config, Ok 0)]
                          @ exit_calls r
                      \<and> programs h (rootfs_path config) ''/bin/bash'' = Some prog
                      \<and> r = prog [''bash'', ''-c'', command config]))"
    by blast
  from c assms(2-5) obtain d m where "calls_since h h' =
                        J @ [(Chroot (rootfs_path config), Ok 0), (Chdir ''/'', d),
                             (Mount ''proc'' ''/proc'' ''proc'', m), (bash_call config, Ok 0)]
                          @ exit_calls r"
      "r = prog [''bash'', ''-c'', command config]"
    by auto
  with J show ?thesis by blast
qed

lemma setup_degraded:
  assumes "''/sys/fs/cgroup/cgroup.controllers'' \<notin> paths h"
  shows "\<exists>e. setup_cgroups nm mem p h
            = (0, log (Access ''/sys/fs/cgroup/cgroup.controllers'') (Err e) h)"
proof -
  obtain a h1 where A: "sys_access ''/sys/fs/cgroup/cgroup.controllers'' h = (a, h1)"
    by fastforce
  from sys_access_spec [OF A] assms obtain e where
    e: "a = Err e" "h1 = log (Access ''/sys/fs/cgroup/cgroup.controllers'') (Err e) h" by auto
  with A have "sys_access ''/sys/fs/cgroup/cgroup.controllers'' h = (Err e, h1)" by simp
  from setup_unavailable [OF this, of nm mem p] e(2) show ?thesis by blast
qed

lemma cleanup_calls:
  "\<exists>r. calls_since h (cleanup_cgroups nm h) = [(Rmdir (cleanup_path nm), r)]
     \<and> (r = Ok 0 \<and> cleanup_path nm \<in> paths h
           \<and> paths (cleanup_cgroups nm h) = paths h - {cleanup_path nm}
         \<or> (\<exists>e. r = Err e) \<and> paths (cleanup_cgroups nm h) = paths h)"
  using cleanup_cgroups_spec [of nm h] by (auto simp: calls_since_def)


subsection \<open>Evaluation on the example hosts\<close>

lemmas sys_defs = step_def log_def sys_access_def sys_mkdir_def sys_rmdir_def sys_fopen_def
  sys_fprintf_def sys_fclose_def sys_malloc_def sys_free_def sys_clone_def sys_waitpid_def
  sys_chroot_def sys_chdir_def sys_mount_def sys_execl_def finish_def

lemma cpu_max_value_50: "cpu_max_value 50 = ''50000 100000''"
  by (subst cpu_max_value_eq) (simp_all add: show_int_50000)

lemma fmt_ld_512M: "fmt_ld 536870912 = ''536870912''"
  by (simp add: fmt_ld_def show_int_def dec.simps)

lemma fmt_d_1: "fmt_d 1 = ''1''"
  by (simp add: fmt_d_def show_int_def dec.simps)

lemmas eval_defs = main_def setup_cgroups_def child_function_def cleanup_cgroups_def
  write_cgroup_file_def

lemmas eval_simps = cpu_max_value_50 fmt_ld_512M fmt_d_1 sys_defs snprintf_def cgroup_path_eq
  cleanup_path_def cgroup_procs_path_def calls_since_def buffered_def
  host_fclose_def host0_def host_nocg_def host_reuse_def host_chdir_def host_nobash_def host_nomem_def
  host_noclone_def self0_def child0_def
  argv_ok_def argv_badroot_def argv_noname_def argv_short_def config_of_def

lemma setup_host0:
  "fst (setup_cgroups ''t1'' 536870912 50 host0) = 1"
  unfolding eval_defs Let_def by (simp add: eval_simps)

lemma setup_host0_calls:
  "calls_since host0 (snd (setup_cgroups ''t1'' 536870912 50 host0)) =
     [(Access ''/sys/fs/cgroup/cgroup.controllers'', Ok 0),
      (Mkdir ''/sys/fs/cgroup/minirun-t1'', Ok 0),
      (Fopen ''/sys/fs/cgroup/cgroup.subtree_control'', Ok 1),
      (Fprintf ''/sys/fs/cgroup/cgroup.subtree_control'' ''+cpu +memory'', Ok 12),
      (Fclose ''/sys/fs/cgroup/cgroup.subtree_control'', Ok 0),
      (Fopen ''/sys/fs/cgroup/minirun-t1/memory.max'', Ok 1),
      (Fprintf ''/sys/fs/cgroup/minirun-t1/memory.max'' ''536870912'', Ok 9),
      (Fclose ''/sys/fs/cgroup/minirun-t1/memory.max'', Ok 0),
      (Fopen ''/sys/fs/cgroup/minirun-t1/cpu.max'', Ok 1),
      (Fprintf ''/sys/fs/cgroup/minirun-t1/cpu.max'' ''50000 100000'', Ok 12),
      (Fclose ''/sys/fs/cgroup/minirun-t1/cpu.max'', Ok 0)]"
  unfolding eval_defs Let_def by (simp add: eval_simps)

lemma setup_reuse_calls:
  "calls_since host_reuse (snd (setup_cgroups ''t1'' 536870912 50 host_reuse)) =
     [(Access ''/sys/fs/cgroup/cgroup.controllers'', Ok 0),
      (Mkdir ''/sys/fs/cgroup/minirun-t1'', Err EEXIST),
      (Fopen ''/sys/fs/cgroup/cgroup.subtree_control'', Ok 1),
      (Fprintf ''/sys/fs/cgroup/cgroup.subtree_control'' ''+cpu +memory'', Ok 12),
      (Fclose ''/sys/fs/cgroup/cgroup.subtree_control'', Ok 0),
      (Fopen ''/sys/fs/cgroup/minirun-t1/memory.max'', Err EACCES),
      (Fopen ''/sys/fs/cgroup/minirun-t1/cpu.max'', Ok 1),
      (Fprintf ''/sys/fs/cgroup/minirun-t1/cpu.max'' ''50000 100000'', Ok 12),
      (Fclose ''/sys/fs/cgroup/minirun-t1/cpu.max'', Ok 0)]"
  unfolding eval_defs Let_def by (simp add: eval_simps)

lemma cleanup_reuse_calls:
  "calls_since host_reuse (cleanup_cgroups ''t1'' host_reuse) =
     [(Rmdir ''/sys/fs/cgroup/minirun-t1'', Ok 0)]"
  unfolding eval_defs Let_def by (simp add: eval_simps)

lemma main_ok_result: "fst (main self0 argv_ok host0) = Returned 0"
  unfolding eval_defs Let_def by (simp add: eval_simps)

lemma main_nomem_result: "fst (main self0 argv_ok host_nomem) = Returned 1"
  unfolding eval_defs Let_def by (simp add: eval_simps)

lemma main_noclone_result: "fst (main self0 argv_ok host_noclone) = Returned 1"
  unfolding eval_defs Let_def by (simp add: eval_simps)

lemma main_badroot_result: "fst (main self0 argv_badroot host0) = Returned 0"
  unfolding eval_defs Let_def by (simp add: eval_simps)

lemma main_badroot_calls:
  "calls_since host0 (snd (main self0 argv_badroot host0)) =
     [(Access ''/sys/fs/cgroup/cgroup.controllers'', Ok 0),
      (Mkdir ''/sys/fs/cgroup/minirun-t1'', Ok 0),
      (Fopen ''/sys/fs/cgroup/cgroup.subtree_control'', Ok 1),
      (Fprintf ''/sys/fs/cgroup/cgroup.subtree_control'' ''+cpu +memory'', Ok 12),
      (Fclose ''/sys/fs/cgroup/cgroup.subtree_control'', Ok 0),
      (Fopen ''/sys/fs/cgroup/minirun-t1/memory.max'', Ok 1),
      (Fprintf ''/sys/fs/cgroup/minirun-t1/memory.max'' ''536870912'', Ok 9),
      (Fclose ''/sys/fs/cgroup/minirun-t1/memory.max'', Ok 0),
      (Fopen ''/sys/fs/cgroup/minirun-t1/cpu.max'', Ok 1),
      (Fprintf ''/sys/fs/cgroup/minirun-t1/cpu.max'' ''50000 100000'', Ok 12),
      (Fclose ''/sys/fs/cgroup/minirun-t1/cpu.max'', Ok 0),
      (Malloc 1048576, Ok 1), (Clone, Ok 4241),
      (Fopen ''/sys/fs/cgroup/minirun-t1/cgroup.procs'', Ok 1),
      (Fprintf ''/sys/fs/cgroup/minirun-t1/cgroup.procs'' ''1'', Ok 1),
      (Fclose ''/sys/fs/cgroup/minirun-t1/cgroup.procs'', Ok 0),
      (Chroot ''/nonexistent'', Err ENOENT), (Exit 1, Ok 0),
      (Waitpid 4241, Ok 4241), (Free, Ok 0),
      (Rmdir ''/sys/fs/cgroup/minirun-t1'', Ok 0)]"
  unfolding eval_defs Let_def by (simp add: eval_simps)

lemma main_noname_result: "fst (main self0 argv_noname host0) = Returned 0"
  unfolding eval_defs Let_def by (simp add: eval_simps)

lemma main_noname_calls:
  "calls_since host0 (snd (main self0 argv_noname host0)) =
     [(Access ''/sys/fs/cgroup/cgroup.controllers'', Ok 0),
      (Mkdir ''/sys/fs/cgroup/minirun-'', Ok 0),
      (Fopen ''/sys/fs/cgroup/cgroup.subtree_control'', Ok 1),
      (Fprintf ''/sys/fs/cgroup/cgroup.subtree_control'' ''+cpu +memory'', Ok 12),
      (Fclose ''/sys/fs/cgroup/cgroup.subtree_control'', Ok 0),
      (Fopen ''/sys/fs/cgroup/minirun-/memory.max'', Ok 1),
      (Fprintf ''/sys/fs/cgroup/minirun-/memory.max'' ''536870912'', Ok 9),
      (Fclose ''/sys/fs/cgroup/minirun-/memory.max'', Ok 0),
      (Fopen ''/sys/fs/cgroup/minirun-/cpu.max'', Ok 1),
      (Fprintf ''/sys/fs/cgroup/minirun-/cpu.max'' ''50000 100000'', Ok 12),
      (Fclose ''/sys/fs/cgroup/minirun-/cpu.max'', Ok 0),
      (Malloc 1048576, Ok 1), (Clone, Ok 4241),
      (Fopen ''/sys/fs/cgroup/minirun-/cgroup.procs'', Ok 1),
      (Fprintf ''/sys/fs/cgroup/minirun-/cgroup.procs'' ''1'', Ok 1),
      (Fclose ''/sys/fs/cgroup/minirun-/cgroup.procs'', Ok 0),
      (Chroot ''/srv/rootfs'', Ok 0), (Chdir ''/'', Ok 0),
      (Mount ''proc'' ''/proc'' ''proc'', Ok 0),
      (Execl ''/bin/bash'' [''bash'', ''-c'', ''/bin/true''], Ok 0),
      (Exit 7, Ok 0), (Waitpid 4241, Ok 4241), (Free, Ok 0),
      (Rmdir ''/sys/fs/cgroup/minirun-'', Ok 0)]"
  unfolding eval_defs Let_def by (simp add: eval_simps)

lemma child_host0_result:
  "fst (child_function (config_of argv_ok) child0 host0) = Terminates 7"
  unfolding eval_defs Let_def by (simp add: eval_simps)


lemma argv_ok_nth:
  "argv_ok ! 1 = ''t1''" "argv_ok ! 2 = ''/srv/rootfs''" "argv_ok ! 3 = ''/bin/true''"
  "length argv_ok = 4"
  by (simp_all add: argv_ok_def)

lemma argv_badroot_nth:
  "argv_badroot ! 1 = ''t1''" "argv_badroot ! 2 = ''/nonexistent''" "length argv_badroot = 4"
  by (simp_all add: argv_badroot_def)

lemma cleanup_path_t1: "cleanup_path ''t1'' = ''/sys/fs/cgroup/minirun-t1''"
  by (simp add: cleanup_path_def snprintf_def)


lemma pair2: "f = (fst f, snd f)"
  by simp

section \<open>The claims\<close>

text \<open>
  Claim C1, as the code has it. Whenever the child was spawned and \<^verbatim>\<open>main\<close> returns, the
  exit code is 0, whatever the child's status: the status that \<^verbatim>\<open>waitpid\<close> stores is
  never read. In particular, when \<^verbatim>\<open>chroot\<close> to the root filesystem fails, the child
  exits with status 1, the parent waits for it, frees the stack, removes the group and
  returns 0.
\<close>

theorem exit_code_after_spawn:
  assumes "4 \<le> length argv" and "main self argv h = (Returned c, h')"
    and "(Clone, Ok p) \<in> set (calls_since h h')"
  shows "c = 0
       \<and> (\<forall>e. (Chroot (argv ! 2), Err e) \<in> set (calls_since h h') \<longrightarrow>
            (\<exists>ev w r. calls_since h h' =
                ev @ [(Chroot (argv ! 2), Err e), (Exit 1, Ok 0), (Waitpid p, w), (Free, Ok 0),
                      (Rmdir (cleanup_path (argv ! 1)), r)]))"
  using assms(2,1)
proof (cases rule: main_shape)
  case (fail_malloc ok h1 e r n)
  with assms(3) not_in_file_calls [OF setup_calls_kind [OF fail_malloc(1)], of Clone "Ok p"]
  show ?thesis by simp
next
  case (fail_clone ok h1 e r n)
  with assms(3) not_in_file_calls [OF setup_calls_kind [OF fail_clone(1)], of Clone "Ok p"]
  show ?thesis by simp
next
  case (hung ok h1 p h3 pr)
  then show ?thesis by simp
next
  case (finished ok h1 p' h3 s pr h4 w r)
  note fk = setup_calls_kind [OF finished(1)]
  note ck = conjunct2 [OF child_function_kind [OF finished(2)]]
  from assms(3) finished(6) not_in_file_calls [OF fk, of Clone "Ok p"]
    not_in_child_calls [OF ck, of Clone "Ok p"]
  have p: "p' = p" by simp
  have "\<exists>ev w r. calls_since h h' =
                ev @ [(Chroot (argv ! 2), Err e), (Exit 1, Ok 0), (Waitpid p, w), (Free, Ok 0),
                      (Rmdir (cleanup_path (argv ! 1)), r)]"
    if "(Chroot (argv ! 2), Err e) \<in> set (calls_since h h')" for e
  proof -
    from that finished(6) not_in_file_calls [OF fk, of "Chroot (argv ! 2)" "Err e"]
    have "(Chroot (argv ! 2), Err e) \<in> set (calls_since h3 h4)" by simp
    from child_chroot_failed [OF finished(2) this] obtain J where
      "calls_since h3 h4 = J @ [(Chroot (argv ! 2), Err e), (Exit 1, Ok 0)]" by auto
    with finished(6) p have "calls_since h h' =
        (calls_since h h1 @ [(Malloc 1048576, Ok 1), (Clone, Ok p)] @ J)
        @ [(Chroot (argv ! 2), Err e), (Exit 1, Ok 0), (Waitpid p, w), (Free, Ok 0),
           (Rmdir (cleanup_path (argv ! 1)), r)]" by simp
    then show ?thesis by blast
  qed
  with finished(7) show ?thesis by simp
qed

theorem exit_code_after_spawn_witness:
  "4 \<le> length argv_badroot
   \<and> (Clone, Ok 4241) \<in> set (calls_since host0 (snd (main self0 argv_badroot host0)))
   \<and> (Chroot ''/nonexistent'', Err ENOENT)
        \<in> set (calls_since host0 (snd (main self0 argv_badroot host0)))
   \<and> (\<exists>ev w r. calls_since host0 (snd (main self0 argv_badroot host0)) =
          ev @ [(Chroot ''/nonexistent'', Err ENOENT), (Exit 1, Ok 0), (Waitpid 4241, w),
                (Free, Ok 0), (Rmdir ''/sys/fs/cgroup/minirun-t1'', r)])"
proof -
  have len: "4 \<le> length argv_badroot" by (simp add: argv_badroot_nth)
  have m: "main self0 argv_badroot host0 = (Returned 0, snd (main self0 argv_badroot host0))"
    using main_badroot_result pair2 [of "main self0 argv_badroot host0"] by simp
  have cl: "(Clone, Ok 4241) \<in> set (calls_since host0 (snd (main self0 argv_badroot host0)))"
    by (simp add: main_badroot_calls)
  have ch: "(Chroot ''/nonexistent'', Err ENOENT)
      \<in> set (calls_since host0 (snd (main self0 argv_badroot host0)))"
    by (simp add: main_badroot_calls)
  note t = conjunct2 [OF exit_code_after_spawn [OF len m cl],
    unfolded argv_badroot_nth cleanup_path_t1]
  from t ch
  have ex: "\<exists>ev w r. calls_since host0 (snd (main self0 argv_badroot host0)) =
          ev @ [(Chroot ''/nonexistent'', Err ENOENT), (Exit 1, Ok 0), (Waitpid 4241, w),
                (Free, Ok 0), (Rmdir ''/sys/fs/cgroup/minirun-t1'', r)]"
    by blast
  show ?thesis by (intro conjI; fact len cl ch ex)
qed

text \<open>
  Claim C1 as stated fails: with a root filesystem that does not exist the child is
  spawned, \<^verbatim>\<open>chroot\<close> fails, the child exits with status 1, and the overall exit code
  is 0.
\<close>

theorem exit_code_counterexample:
  "fst (main self0 argv_badroot host0) = Returned 0
   \<and> (Clone, Ok 4241) \<in> set (calls_since host0 (snd (main self0 argv_badroot host0)))
   \<and> (Chroot ''/nonexistent'', Err ENOENT)
        \<in> set (calls_since host0 (snd (main self0 argv_badroot host0)))
   \<and> (Exit 1, Ok 0) \<in> set (calls_since host0 (snd (main self0 argv_badroot host0)))"
  by (simp add: main_badroot_result main_badroot_calls)

text \<open>
  Claim C2. Once \<^verbatim>\<open>main\<close> has got past the argument check, so that provisioning is
  attempted (the first call is the \<^verbatim>\<open>access\<close> check of \<^verbatim>\<open>setup_cgroups\<close>), every
  run that returns ends with the \<^verbatim>\<open>rmdir\<close> of \<^verbatim>\<open>cleanup_cgroups\<close>, and no other
  \<^verbatim>\<open>rmdir\<close> is made: this holds on the normal path, when \<^verbatim>\<open>malloc\<close> fails and when
  \<^verbatim>\<open>clone\<close> fails.
\<close>

theorem cleanup_exactly_once:
  assumes "4 \<le> length argv" and "main self argv h = (Returned c, h')"
  shows "\<exists>a ev r. calls_since h h' =
            (Access ''/sys/fs/cgroup/cgroup.controllers'', a) # ev
              @ [(Rmdir (cleanup_path (argv ! 1)), r)]
          \<and> (\<forall>x\<in>set ev. \<forall>q. fst x \<noteq> Rmdir q)"
  using assms(2,1)
proof (cases rule: main_shape)
  case (fail_malloc ok h1 e r n)
  from setup_cgroups_first [OF fail_malloc(1)] obtain a S where
    S: "calls_since h h1 = (Access ''/sys/fs/cgroup/cgroup.controllers'', a) # S" by blast
  with setup_calls_kind [OF fail_malloc(1)] have k: "\<forall>c\<in>set S. is_file_call (fst c)" by simp
  have "\<forall>x\<in>set (S @ [(Malloc 1048576, Err e)]). \<forall>q. fst x \<noteq> Rmdir q"
    using k by auto
  moreover have "calls_since h h' = (Access ''/sys/fs/cgroup/cgroup.controllers'', a)
      # (S @ [(Malloc 1048576, Err e)]) @ [(Rmdir (cleanup_path (argv ! 1)), r)]"
    using fail_malloc(2) S by simp
  ultimately show ?thesis by blast
next
  case (fail_clone ok h1 e r n)
  from setup_cgroups_first [OF fail_clone(1)] obtain a S where
    S: "calls_since h h1 = (Access ''/sys/fs/cgroup/cgroup.controllers'', a) # S" by blast
  with setup_calls_kind [OF fail_clone(1)] have k: "\<forall>c\<in>set S. is_file_call (fst c)" by simp
  have "\<forall>x\<in>set (S @ [(Malloc 1048576, Ok 1), (Clone, Err e), (Free, Ok 0)]). \<forall>q. fst x \<noteq> Rmdir q"
    using k by auto
  moreover have "calls_since h h' = (Access ''/sys/fs/cgroup/cgroup.controllers'', a)
      # (S @ [(Malloc 1048576, Ok 1), (Clone, Err e), (Free, Ok 0)])
      @ [(Rmdir (cleanup_path (argv ! 1)), r)]"
    using fail_clone(2) S by simp
  ultimately show ?thesis by blast
next
  case (hung ok h1 p h3 pr)
  then show ?thesis by simp
next
  case (finished ok h1 p h3 s pr h4 w r)
  from setup_cgroups_first [OF finished(1)] obtain a S where
    S: "calls_since h h1 = (Access ''/sys/fs/cgroup/cgroup.controllers'', a) # S" by blast
  with setup_calls_kind [OF finished(1)] have k: "\<forall>c\<in>set S. is_file_call (fst c)" by simp
  note ck = conjunct2 [OF child_function_kind [OF finished(2)]]
  have "\<forall>x\<in>set (S @ [(Malloc 1048576, Ok 1), (Clone, Ok p)] @ calls_since h3 h4
      @ [(Waitpid p, w), (Free, Ok 0)]). \<forall>q. fst x \<noteq> Rmdir q"
    using k ck by auto
  moreover have "calls_since h h' = (Access ''/sys/fs/cgroup/cgroup.controllers'', a)
      # (S @ [(Malloc 1048576, Ok 1), (Clone, Ok p)] @ calls_since h3 h4
          @ [(Waitpid p, w), (Free, Ok 0)])
      @ [(Rmdir (cleanup_path (argv ! 1)), r)]"
    using finished(6) S by simp
  ultimately show ?thesis by blast
qed

theorem cleanup_exactly_once_witness:
  "(\<exists>a ev r. calls_since host0 (snd (main self0 argv_ok host0)) =
        (Access ''/sys/fs/cgroup/cgroup.controllers'', a) # ev
          @ [(Rmdir ''/sys/fs/cgroup/minirun-t1'', r)]
      \<and> (\<forall>x\<in>set ev. \<forall>q. fst x \<noteq> Rmdir q))
   \<and> (\<exists>a ev r. calls_since host_nomem (snd (main self0 argv_ok host_nomem)) =
        (Access ''/sys/fs/cgroup/cgroup.controllers'', a) # ev
          @ [(Rmdir ''/sys/fs/cgroup/minirun-t1'', r)]
      \<and> (\<forall>x\<in>set ev. \<forall>q. fst x \<noteq> Rmdir q))
   \<and> (\<exists>a ev r. calls_since host_noclone (snd (main self0 argv_ok host_noclone)) =
        (Access ''/sys/fs/cgroup/cgroup.controllers'', a) # ev
          @ [(Rmdir ''/sys/fs/cgroup/minirun-t1'', r)]
      \<and> (\<forall>x\<in>set ev. \<forall>q. fst x \<noteq> Rmdir q))"
proof -
  have len: "4 \<le> length argv_ok" by (simp add: argv_ok_nth)
  have m0: "main self0 argv_ok host0 = (Returned 0, snd (main self0 argv_ok host0))"
    using main_ok_result pair2 [of "main self0 argv_ok host0"] by simp
  have m1: "main self0 argv_ok host_nomem = (Returned 1, snd (main self0 argv_ok host_nomem))"
    using main_nomem_result pair2 [of "main self0 argv_ok host_nomem"] by simp
  have m2: "main self0 argv_ok host_noclone = (Returned 1, snd (main self0 argv_ok host_noclone))"
    using main_noclone_result pair2 [of "main self0 argv_ok host_noclone"] by simp
  note t0 = cleanup_exactly_once [OF len m0, unfolded argv_ok_nth cleanup_path_t1]
  note t1 = cleanup_exactly_once [OF len m1, unfolded argv_ok_nth cleanup_path_t1]
  note t2 = cleanup_exactly_once [OF len m2, unfolded argv_ok_nth cleanup_path_t1]
  show ?thesis by (intro conjI; fact t0 t1 t2)
qed

text \<open>
  Claim C3. For every CPU percentage \<open>p\<close> whose product with 1000 fits the C type
  \<^verbatim>\<open>int\<close> (so for every percentage from 0 to 100), the value that \<^verbatim>\<open>setup_cgroups\<close>
  writes to the group's \<^verbatim>\<open>cpu.max\<close> file is the decimal rendering of \<open>p * 1000\<close>, a
  space, and the fixed period \<open>100000\<close>. No other string is ever written to that file.
  The file is opened whenever the group directory was created or found; once it is open
  the string is written to the stream and the stream is closed; when provisioning reports
  success the \<^verbatim>\<open>fprintf\<close> of the string has succeeded; and when the \<^verbatim>\<open>fclose\<close> that
  flushes it succeeds too, the file holds the string. For \<open>p = 50\<close> the string is
  \<^verbatim>\<open>50000 100000\<close>, for \<open>p = 100\<close> it is \<^verbatim>\<open>100000 100000\<close>.
\<close>

theorem cpu_quota_written:
  assumes "- 2147483 \<le> sint p" and "sint p \<le> 2147483"
    and "setup_cgroups nm mem p h = (ok, h')"
  shows "cpu_max_value p = show_int (sint p * 1000) @ '' 100000''
       \<and> (\<forall>v r. (Fprintf (cgroup_path nm @ ''/cpu.max'') v, r) \<in> set (calls_since h h')
              \<longrightarrow> v = show_int (sint p * 1000) @ '' 100000'')
       \<and> (\<forall>m. (Mkdir (cgroup_path nm), m) \<in> set (calls_since h h')
                \<and> (m = Ok 0 \<or> m = Err EEXIST) \<longrightarrow>
              (\<exists>r. (Fopen (cgroup_path nm @ ''/cpu.max''), r) \<in> set (calls_since h h')))
       \<and> ((Fopen (cgroup_path nm @ ''/cpu.max''), Ok 1) \<in> set (calls_since h h') \<longrightarrow>
              (\<exists>fr. (Fprintf (cgroup_path nm @ ''/cpu.max'')
                        (show_int (sint p * 1000) @ '' 100000''), fr)
                      \<in> set (calls_since h h'))
            \<and> (\<exists>cr. (Fclose (cgroup_path nm @ ''/cpu.max''), cr) \<in> set (calls_since h h')))
       \<and> (ok = 1 \<longrightarrow>
              (Fprintf (cgroup_path nm @ ''/cpu.max'') (show_int (sint p * 1000) @ '' 100000''),
               Ok (int (length (show_int (sint p * 1000) @ '' 100000''))))
                \<in> set (calls_since h h'))
       \<and> ((Fprintf (cgroup_path nm @ ''/cpu.max'') (show_int (sint p * 1000) @ '' 100000''),
               Ok (int (length (show_int (sint p * 1000) @ '' 100000''))))
                \<in> set (calls_since h h')
            \<and> (Fclose (cgroup_path nm @ ''/cpu.max''), Ok 0) \<in> set (calls_since h h') \<longrightarrow>
              written h' (cgroup_path nm @ ''/cpu.max'')
                = Some (show_int (sint p * 1000) @ '' 100000''))
       \<and> cpu_max_value 50 = ''50000 100000'' \<and> cpu_max_value 100 = ''100000 100000''"
proof -
  note eq = cpu_max_value_eq [OF assms(1,2)]
  have ne: "cpu_max_value p \<noteq> []" unfolding eq by simp
  have a: "cpu_max_value 50 = ''50000 100000''"
    by (subst cpu_max_value_eq) (simp_all add: show_int_50000)
  have b: "cpu_max_value 100 = ''100000 100000''"
    by (subst cpu_max_value_eq) (simp_all add: show_int_100000)
  note ev = setup_cgroups_events [OF assms(3)]
  note e1 = conjunct1 [OF ev, unfolded eq]
  note e2 = conjunct1 [OF conjunct2 [OF ev]]
  note e3 = conjunct1 [OF conjunct2 [OF conjunct2 [OF ev]], unfolded eq]
  note e4 = conjunct1 [OF conjunct2 [OF conjunct2 [OF conjunct2 [OF ev]]], unfolded eq]
  note e5 = conjunct2 [OF conjunct2 [OF conjunct2 [OF conjunct2 [OF ev]]]]
  have e5': "(Fprintf (cgroup_path nm @ ''/cpu.max'') (show_int (sint p * 1000) @ '' 100000''),
               Ok (int (length (show_int (sint p * 1000) @ '' 100000''))))
                \<in> set (calls_since h h')
            \<and> (Fclose (cgroup_path nm @ ''/cpu.max''), Ok 0) \<in> set (calls_since h h') \<longrightarrow>
              written h' (cgroup_path nm @ ''/cpu.max'')
                = Some (show_int (sint p * 1000) @ '' 100000'')"
    using e5 ne unfolding eq by blast
  show ?thesis by (intro conjI; fact eq e1 e2 e3 e4 e5' a b)
qed

theorem cpu_quota_written_witness:
  "- 2147483 \<le> sint (50 :: c_int) \<and> sint (50 :: c_int) \<le> 2147483
   \<and> fst (setup_cgroups ''t1'' 536870912 50 host0) = 1
   \<and> (Fprintf ''/sys/fs/cgroup/minirun-t1/cpu.max'' ''50000 100000'', Ok 12)
        \<in> set (calls_since host0 (snd (setup_cgroups ''t1'' 536870912 50 host0)))
   \<and> (Fclose ''/sys/fs/cgroup/minirun-t1/cpu.max'', Ok 0)
        \<in> set (calls_since host0 (snd (setup_cgroups ''t1'' 536870912 50 host0)))
   \<and> written (snd (setup_cgroups ''t1'' 536870912 50 host0)) ''/sys/fs/cgroup/minirun-t1/cpu.max''
       = Some ''50000 100000''"
proof -
  have r: "- 2147483 \<le> sint (50 :: c_int)" "sint (50 :: c_int) \<le> 2147483" by simp_all
  have p: "cgroup_path ''t1'' = ''/sys/fs/cgroup/minirun-t1''"
    by (simp add: cgroup_path_eq)
  have v: "show_int (sint (50 :: c_int) * 1000) @ '' 100000'' = ''50000 100000''"
    by (simp add: show_int_50000)
  note t = cpu_quota_written [OF r pair2 [of "setup_cgroups ''t1'' 536870912 50 host0"],
    unfolded p v]
  have w: "(Fprintf ''/sys/fs/cgroup/minirun-t1/cpu.max'' ''50000 100000'', Ok 12)
        \<in> set (calls_since host0 (snd (setup_cgroups ''t1'' 536870912 50 host0)))"
    using t setup_host0 by simp
  have c: "(Fclose ''/sys/fs/cgroup/minirun-t1/cpu.max'', Ok 0)
        \<in> set (calls_since host0 (snd (setup_cgroups ''t1'' 536870912 50 host0)))"
    by (simp add: setup_host0_calls)
  have "written (snd (setup_cgroups ''t1'' 536870912 50 host0)) ''/sys/fs/cgroup/minirun-t1/cpu.max''
       = Some ''50000 100000''"
    using t w c by simp
  with r w c setup_host0 show ?thesis by simp
qed

text \<open>
  Claim C4. When \<^verbatim>\<open>/sys/fs/cgroup/cgroup.controllers\<close> does not exist,
  \<^verbatim>\<open>setup_cgroups\<close> returns 0 after the \<^verbatim>\<open>access\<close> check alone, without creating a
  directory. \<^verbatim>\<open>main\<close> goes on: if the host grants the stack and the new process, the root
  filesystem exists and holds a shell, and the command run by that shell ends with status
  \<open>s\<close>, then the child is spawned, switches root, starts the shell and ends with status
  \<open>s\<close>; the parent waits for it and returns.
\<close>

theorem degraded_mode_launch:
  assumes "''/sys/fs/cgroup/cgroup.controllers'' \<notin> paths h"
  shows "(\<exists>e. setup_cgroups nm mem p h
            = (0, log (Access ''/sys/fs/cgroup/cgroup.controllers'') (Err e) h))
     \<and> (4 \<le> length argv \<and> argv ! 2 \<in> paths h
          \<and> programs h (argv ! 2) ''/bin/bash'' = Some prog
          \<and> prog [''bash'', ''-c'', argv ! 3] = Terminates s
          \<and> (\<forall>n. fault h n (Malloc 1048576) = None \<and> fault h n Clone = None
                 \<and> fault h n (Chroot (argv ! 2)) = None
                 \<and> fault h n (Execl ''/bin/bash'' [''bash'', ''-c'', argv ! 3]) = None)
        \<longrightarrow> (\<exists>h' e q J d m w r.
               main self argv h = (Returned 0, h')
             \<and> join_calls (argv ! 1) (self\<lparr>pid := 1\<rparr>) J
             \<and> calls_since h h' =
                 [(Access ''/sys/fs/cgroup/cgroup.controllers'', Err e),
                  (Malloc 1048576, Ok 1), (Clone, Ok q)] @ J
                 @ [(Chroot (argv ! 2), Ok 0), (Chdir ''/'', d),
                    (Mount ''proc'' ''/proc'' ''proc'', m),
                    (Execl ''/bin/bash'' [''bash'', ''-c'', argv ! 3], Ok 0),
                    (Exit s, Ok 0), (Waitpid q, w), (Free, Ok 0),
                    (Rmdir (cleanup_path (argv ! 1)), r)]))"
proof (intro conjI impI)
  show "\<exists>e. setup_cgroups nm mem p h
            = (0, log (Access ''/sys/fs/cgroup/cgroup.controllers'') (Err e) h)"
    by (rule setup_degraded [OF assms])
next
  assume a: "4 \<le> length argv \<and> argv ! 2 \<in> paths h
          \<and> programs h (argv ! 2) ''/bin/bash'' = Some prog
          \<and> prog [''bash'', ''-c'', argv ! 3] = Terminates s
          \<and> (\<forall>n. fault h n (Malloc 1048576) = None \<and> fault h n Clone = None
                 \<and> fault h n (Chroot (argv ! 2)) = None
                 \<and> fault h n (Execl ''/bin/bash'' [''bash'', ''-c'', argv ! 3]) = None)"
  then have len: "4 \<le> length argv" and rootfs: "argv ! 2 \<in> paths h"
    and prog: "programs h (argv ! 2) ''/bin/bash'' = Some prog"
    and run: "prog [''bash'', ''-c'', argv ! 3] = Terminates s"
    and nf: "\<And>n. fault h n (Malloc 1048576) = None" "\<And>n. fault h n Clone = None"
      "\<forall>n. fault h n (Chroot (argv ! 2)) = None"
      "\<forall>n. fault h n (Execl ''/bin/bash'' [''bash'', ''-c'', argv ! 3]) = None"
    by simp_all
  from setup_degraded [OF assms, of "argv ! 1" 536870912 50] obtain e where
    sd: "setup_cgroups (argv ! 1) 536870912 50 h
          = (0, log (Access ''/sys/fs/cgroup/cgroup.controllers'') (Err e) h)" by blast
  have launch: "st = Terminates s \<and> (\<exists>J d m. join_calls (argv ! 1) (self\<lparr>pid := 1\<rparr>) J
          \<and> calls_since h3 h4 =
               J @ [(Chroot (argv ! 2), Ok 0), (Chdir ''/'', d),
                    (Mount ''proc'' ''/proc'' ''proc'', m),
                    (Execl ''/bin/bash'' [''bash'', ''-c'', argv ! 3], Ok 0)]
                 @ exit_calls st)"
    if "child_function (config_of argv) (self\<lparr>pid := 1\<rparr>) h3 = (st, pr, h4)"
      "fault h3 = fault h" "programs h3 = programs h" "paths h \<subseteq> paths h3"
    for h3 st pr h4
    using child_launch [OF that(1), of prog] that(2-4) rootfs prog nf(3,4) run
    by (auto simp: bash_call_def)
  obtain out h' where m: "main self argv h = (out, h')" by fastforce
  from m len show "\<exists>h' e q J d m w r.
               main self argv h = (Returned 0, h')
             \<and> join_calls (argv ! 1) (self\<lparr>pid := 1\<rparr>) J
             \<and> calls_since h h' =
                 [(Access ''/sys/fs/cgroup/cgroup.controllers'', Err e),
                  (Malloc 1048576, Ok 1), (Clone, Ok q)] @ J
                 @ [(Chroot (argv ! 2), Ok 0), (Chdir ''/'', d),
                    (Mount ''proc'' ''/proc'' ''proc'', m),
                    (Execl ''/bin/bash'' [''bash'', ''-c'', argv ! 3], Ok 0),
                    (Exit s, Ok 0), (Waitpid q, w), (Free, Ok 0),
                    (Rmdir (cleanup_path (argv ! 1)), r)]"
  proof (cases rule: main_shape)
    case (fail_malloc ok h1 e r n)
    with nf(1) show ?thesis by simp
  next
    case (fail_clone ok h1 e r n)
    with nf(2) show ?thesis by simp
  next
    case (hung ok h1 q h3 pr)
    from launch [OF hung(2-5)] show ?thesis by simp
  next
    case (finished ok h1 q h3 s' pr h4 w r)
    from launch [OF finished(2-5)] obtain J d m' where
      J: "s' = s" "join_calls (argv ! 1) (self\<lparr>pid := 1\<rparr>) J"
        "calls_since h3 h4 =
               J @ [(Chroot (argv ! 2), Ok 0), (Chdir ''/'', d),
                    (Mount ''proc'' ''/proc'' ''proc'', m'),
                    (Execl ''/bin/bash'' [''bash'', ''-c'', argv ! 3], Ok 0)]
                 @ exit_calls (Terminates s')"
      by auto
    from sd finished(1) have "h1 = log (Access ''/sys/fs/cgroup/cgroup.controllers'') (Err e) h"
      by simp
    then have "calls_since h h1 = [(Access ''/sys/fs/cgroup/cgroup.controllers'', Err e)]"
      by (simp add: calls_since_def)
    with finished(6) J have "calls_since h h' =
                 [(Access ''/sys/fs/cgroup/cgroup.controllers'', Err e),
                  (Malloc 1048576, Ok 1), (Clone, Ok q)] @ J
                 @ [(Chroot (argv ! 2), Ok 0), (Chdir ''/'', d),
                    (Mount ''proc'' ''/proc'' ''proc'', m'),
                    (Execl ''/bin/bash'' [''bash'', ''-c'', argv ! 3], Ok 0),
                    (Exit s, Ok 0), (Waitpid q, w), (Free, Ok 0),
                    (Rmdir (cleanup_path (argv ! 1)), r)]"
      by (simp add: exit_calls_def)
    with m finished(7) J(2) show ?thesis by blast
  qed
qed

theorem degraded_mode_launch_witness:
  "''/sys/fs/cgroup/cgroup.controllers'' \<notin> paths host_nocg
   \<and> (\<exists>e. setup_cgroups ''t1'' 536870912 50 host_nocg
          = (0, log (Access ''/sys/fs/cgroup/cgroup.controllers'') (Err e) host_nocg))
   \<and> (\<exists>h' e q J d m w r.
          main self0 argv_ok host_nocg = (Returned 0, h')
        \<and> join_calls ''t1'' (self0\<lparr>pid := 1\<rparr>) J
        \<and> calls_since host_nocg h' =
            [(Access ''/sys/fs/cgroup/cgroup.controllers'', Err e),
             (Malloc 1048576, Ok 1), (Clone, Ok q)] @ J
            @ [(Chroot ''/srv/rootfs'', Ok 0), (Chdir ''/'', d),
               (Mount ''proc'' ''/proc'' ''proc'', m),
               (Execl ''/bin/bash'' [''bash'', ''-c'', ''/bin/true''], Ok 0),
               (Exit 7, Ok 0), (Waitpid q, w), (Free, Ok 0),
               (Rmdir ''/sys/fs/cgroup/minirun-t1'', r)])"
proof -
  have a: "''/sys/fs/cgroup/cgroup.controllers'' \<notin> paths host_nocg"
    by (simp add: host_nocg_def host0_def)
  have b: "4 \<le> length argv_ok \<and> argv_ok ! 2 \<in> paths host_nocg
      \<and> programs host_nocg (argv_ok ! 2) ''/bin/bash'' = Some (\<lambda>args. Terminates 7)
      \<and> (\<lambda>args. Terminates 7) [''bash'', ''-c'', argv_ok ! 3] = Terminates 7
      \<and> (\<forall>n. fault host_nocg n (Malloc 1048576) = None \<and> fault host_nocg n Clone = None
             \<and> fault host_nocg n (Chroot (argv_ok ! 2)) = None
             \<and> fault host_nocg n (Execl ''/bin/bash'' [''bash'', ''-c'', argv_ok ! 3]) = None)"
    by (simp add: host_nocg_def host0_def argv_ok_nth)
  note t = degraded_mode_launch [OF a, of "''t1''" 536870912 50 argv_ok "\<lambda>args. Terminates 7" 7 self0]
  from t have s: "\<exists>e. setup_cgroups ''t1'' 536870912 50 host_nocg
          = (0, log (Access ''/sys/fs/cgroup/cgroup.controllers'') (Err e) host_nocg)"
    by (rule conjunct1)
  note l = mp [OF conjunct2 [OF t] b, unfolded argv_ok_nth cleanup_path_t1]
  show ?thesis by (intro conjI; fact a s l)
qed

text \<open>
  What holds of provisioning on every host. A \<^verbatim>\<open>mkdir\<close> that fails because the name
  exists is not an error: the function goes on to open \<^verbatim>\<open>memory.max\<close> and
  \<^verbatim>\<open>cpu.max\<close>; and a \<^verbatim>\<open>mkdir\<close> of a path that exists does fail that way unless
  the host refuses the call for another reason. Whenever \<^verbatim>\<open>fopen\<close> or \<^verbatim>\<open>fprintf\<close>
  fails on \<^verbatim>\<open>memory.max\<close> or \<^verbatim>\<open>cpu.max\<close>, the function returns 0. It removes
  nothing: every path that existed still exists, and a directory it created is there when
  it returns.
\<close>

lemma provision_reuse_and_failure:
  assumes "setup_cgroups nm mem p h = (ok, h')"
  shows "((Mkdir (cgroup_path nm), Err EEXIST) \<in> set (calls_since h h') \<longrightarrow>
            (\<exists>r. (Fopen (cgroup_path nm @ ''/memory.max''), r) \<in> set (calls_since h h'))
          \<and> (\<exists>r. (Fopen (cgroup_path nm @ ''/cpu.max''), r) \<in> set (calls_since h h')))
       \<and> ((Access ''/sys/fs/cgroup/cgroup.controllers'', Ok 0) \<in> set (calls_since h h')
            \<and> cgroup_path nm \<in> paths h \<and> (\<forall>n. fault h n (Mkdir (cgroup_path nm)) = None) \<longrightarrow>
            (Mkdir (cgroup_path nm), Err EEXIST) \<in> set (calls_since h h'))
       \<and> ((\<exists>e. (Fopen (cgroup_path nm @ ''/memory.max''), Err e) \<in> set (calls_since h h')
              \<or> (Fprintf (cgroup_path nm @ ''/memory.max'') (snprintf 128 (fmt_ld mem)), Err e)
                    \<in> set (calls_since h h')
              \<or> (Fopen (cgroup_path nm @ ''/cpu.max''), Err e) \<in> set (calls_since h h')
              \<or> (Fprintf (cgroup_path nm @ ''/cpu.max'') (cpu_max_value p), Err e)
                    \<in> set (calls_since h h')) \<longrightarrow> ok = 0)
       \<and> paths h \<subseteq> paths h'
       \<and> ((Mkdir (cgroup_path nm), Ok 0) \<in> set (calls_since h h') \<longrightarrow> cgroup_path nm \<in> paths h')"
  using assms
proof (cases rule: setup_cgroups_cases)
  case (unavailable e)
  from sys_access_spec [OF unavailable(1)]
  have "calls_since h h' = [(Access ''/sys/fs/cgroup/cgroup.controllers'', Err e)]"
    by (auto simp: calls_since_def)
  with unavailable setup_cgroups_extends [OF assms] show ?thesis by simp
next
  case (nodir h1 e)
  from sys_access_spec [OF nodir(1)] sys_mkdir_spec [OF nodir(2)]
  have c: "calls_since h h' = [(Access ''/sys/fs/cgroup/cgroup.controllers'', Ok 0), (Mkdir (cgroup_path nm), Err e)]"
    by (auto simp: calls_since_def)
  have "\<not> (cgroup_path nm \<in> paths h \<and> (\<forall>n. fault h n (Mkdir (cgroup_path nm)) = None))"
    using sys_access_spec [OF nodir(1)] sys_mkdir_spec [OF nodir(2)] nodir(3) by auto
  with c nodir setup_cgroups_extends [OF assms] show ?thesis by simp
next
  case (limits h1 m h2 s h3 w1 h4 w2)
  from sys_access_spec [OF limits(1)] sys_mkdir_spec [OF limits(2)]
  have t2: "trace h2 = trace h @ [(Access ''/sys/fs/cgroup/cgroup.controllers'', Ok 0), (Mkdir (cgroup_path nm), m)]"
    by auto
  from write_cgroup_file_calls [OF limits(4)] obtain evS where
    S: "trace h3 = trace h2 @ evS"
       "\<forall>c\<in>set evS. fst c = Fopen ''/sys/fs/cgroup/cgroup.subtree_control''
          \<or> fst c = Fprintf ''/sys/fs/cgroup/cgroup.subtree_control'' ''+cpu +memory''
          \<or> fst c = Fclose ''/sys/fs/cgroup/cgroup.subtree_control''"
    by blast
  from write_cgroup_file_calls [OF limits(5)] obtain evM rM where
    M: "trace h4 = trace h3 @ evM"
       "\<forall>c\<in>set evM. fst c = Fopen (cgroup_path nm @ ''/memory.max'')
          \<or> fst c = Fprintf (cgroup_path nm @ ''/memory.max'') (snprintf 128 (fmt_ld mem))
          \<or> fst c = Fclose (cgroup_path nm @ ''/memory.max'')"
       "(Fopen (cgroup_path nm @ ''/memory.max''), rM) \<in> set evM"
       "(\<exists>e. (Fopen (cgroup_path nm @ ''/memory.max''), Err e) \<in> set evM
           \<or> (Fprintf (cgroup_path nm @ ''/memory.max'') (snprintf 128 (fmt_ld mem)), Err e) \<in> set evM)
        \<longrightarrow> w1 \<noteq> 0"
    by blast
  from write_cgroup_file_calls [OF limits(6)] obtain evC rC where
    C: "trace h' = trace h4 @ evC"
       "\<forall>c\<in>set evC. fst c = Fopen (cgroup_path nm @ ''/cpu.max'')
          \<or> fst c = Fprintf (cgroup_path nm @ ''/cpu.max'') (cpu_max_value p)
          \<or> fst c = Fclose (cgroup_path nm @ ''/cpu.max'')"
       "(Fopen (cgroup_path nm @ ''/cpu.max''), rC) \<in> set evC"
       "(\<exists>e. (Fopen (cgroup_path nm @ ''/cpu.max''), Err e) \<in> set evC
           \<or> (Fprintf (cgroup_path nm @ ''/cpu.max'') (cpu_max_value p), Err e) \<in> set evC)
        \<longrightarrow> w2 \<noteq> 0"
    by blast
  have calls: "calls_since h h' = [(Access ''/sys/fs/cgroup/cgroup.controllers'', Ok 0), (Mkdir (cgroup_path nm), m)] @ evS @ evM @ evC"
    using t2 S(1) M(1) C(1) by (simp add: calls_since_def)
  have notS [simp]: "(Fopen (cgroup_path nm @ ''/memory.max''), r) \<notin> set evS"
      "(Fprintf (cgroup_path nm @ ''/memory.max'') v, r) \<notin> set evS"
      "(Fopen (cgroup_path nm @ ''/cpu.max''), r) \<notin> set evS"
      "(Fprintf (cgroup_path nm @ ''/cpu.max'') v, r) \<notin> set evS"
      "(Mkdir q, r) \<notin> set evS" for r v q
    using S(2) by fastforce+
  have notM [simp]: "(Fopen (cgroup_path nm @ ''/cpu.max''), r) \<notin> set evM"
      "(Fprintf (cgroup_path nm @ ''/cpu.max'') v, r) \<notin> set evM"
      "(Mkdir q, r) \<notin> set evM" for r v q
    using M(2) by fastforce+
  have notC [simp]: "(Fopen (cgroup_path nm @ ''/memory.max''), r) \<notin> set evC"
      "(Fprintf (cgroup_path nm @ ''/memory.max'') v, r) \<notin> set evC"
      "(Mkdir q, r) \<notin> set evC" for r v q
    using C(2) by fastforce+
  have reuse: "(\<exists>r. (Fopen (cgroup_path nm @ ''/memory.max''), r) \<in> set (calls_since h h'))
          \<and> (\<exists>r. (Fopen (cgroup_path nm @ ''/cpu.max''), r) \<in> set (calls_since h h'))"
    using calls M(3) C(3) by auto
  have collide: "(Mkdir (cgroup_path nm), Err EEXIST) \<in> set (calls_since h h')"
    if "cgroup_path nm \<in> paths h" "\<forall>n. fault h n (Mkdir (cgroup_path nm)) = None"
  proof -
    from that sys_access_spec [OF limits(1)] sys_mkdir_spec [OF limits(2)]
    have "m = Err EEXIST" by auto
    with calls show ?thesis by simp
  qed
  have failm: "w1 \<noteq> 0" if "(Fopen (cgroup_path nm @ ''/memory.max''), Err e) \<in> set (calls_since h h')
      \<or> (Fprintf (cgroup_path nm @ ''/memory.max'') (snprintf 128 (fmt_ld mem)), Err e) \<in> set (calls_since h h')" for e
  proof -
    from that calls
    have "(Fopen (cgroup_path nm @ ''/memory.max''), Err e) \<in> set evM
      \<or> (Fprintf (cgroup_path nm @ ''/memory.max'') (snprintf 128 (fmt_ld mem)), Err e) \<in> set evM"
      by simp
    with M(4) show ?thesis by blast
  qed
  have failc: "w2 \<noteq> 0" if "(Fopen (cgroup_path nm @ ''/cpu.max''), Err e) \<in> set (calls_since h h')
      \<or> (Fprintf (cgroup_path nm @ ''/cpu.max'') (cpu_max_value p), Err e) \<in> set (calls_since h h')" for e
  proof -
    from that calls
    have "(Fopen (cgroup_path nm @ ''/cpu.max''), Err e) \<in> set evC
      \<or> (Fprintf (cgroup_path nm @ ''/cpu.max'') (cpu_max_value p), Err e) \<in> set evC"
      by simp
    with C(4) show ?thesis by blast
  qed
  have dir: "cgroup_path nm \<in> paths h'" if "(Mkdir (cgroup_path nm), Ok 0) \<in> set (calls_since h h')"
  proof -
    from that calls have "m = Ok 0" by simp
    with sys_mkdir_spec [OF limits(2)] have "cgroup_path nm \<in> paths h2" by auto
    with write_cgroup_file_extends(2) [OF limits(4)] write_cgroup_file_extends(2) [OF limits(5)]
      write_cgroup_file_extends(2) [OF limits(6)]
    show ?thesis by blast
  qed
  from failm failc limits(7) have fail: "ok = 0"
    if "(Fopen (cgroup_path nm @ ''/memory.max''), Err e) \<in> set (calls_since h h')
      \<or> (Fprintf (cgroup_path nm @ ''/memory.max'') (snprintf 128 (fmt_ld mem)), Err e) \<in> set (calls_since h h')
      \<or> (Fopen (cgroup_path nm @ ''/cpu.max''), Err e) \<in> set (calls_since h h')
      \<or> (Fprintf (cgroup_path nm @ ''/cpu.max'') (cpu_max_value p), Err e) \<in> set (calls_since h h')" for e
    using that by (metis (full_types))
  show ?thesis
    using reuse collide fail dir setup_cgroups_extends [OF assms] by blast
qed

text \<open>
  Claim C5 fails on the code. \<^verbatim>\<open>write_cgroup_file\<close> checks the results of
  \<^verbatim>\<open>fopen\<close> and \<^verbatim>\<open>fprintf\<close> but drops the result of \<^verbatim>\<open>fclose\<close>, where the
  buffered text is written to the file. On a host whose kernel rejects the values written
  to \<^verbatim>\<open>memory.max\<close> and \<^verbatim>\<open>cpu.max\<close>, both writes fail, neither file gets its
  limit, and \<^verbatim>\<open>setup_cgroups\<close> returns 1 all the same.
\<close>

theorem fclose_failure_unreported:
  "fst (setup_cgroups ''t1'' 536870912 50 host_fclose) = 1
   \<and> calls_since host_fclose (snd (setup_cgroups ''t1'' 536870912 50 host_fclose)) =
       [(Access ''/sys/fs/cgroup/cgroup.controllers'', Ok 0),
        (Mkdir ''/sys/fs/cgroup/minirun-t1'', Ok 0),
        (Fopen ''/sys/fs/cgroup/cgroup.subtree_control'', Ok 1),
        (Fprintf ''/sys/fs/cgroup/cgroup.subtree_control'' ''+cpu +memory'', Ok 12),
        (Fclose ''/sys/fs/cgroup/cgroup.subtree_control'', Ok 0),
        (Fopen ''/sys/fs/cgroup/minirun-t1/memory.max'', Ok 1),
        (Fprintf ''/sys/fs/cgroup/minirun-t1/memory.max'' ''536870912'', Ok 9),
        (Fclose ''/sys/fs/cgroup/minirun-t1/memory.max'', Err EINVAL),
        (Fopen ''/sys/fs/cgroup/minirun-t1/cpu.max'', Ok 1),
        (Fprintf ''/sys/fs/cgroup/minirun-t1/cpu.max'' ''50000 100000'', Ok 12),
        (Fclose ''/sys/fs/cgroup/minirun-t1/cpu.max'', Err EINVAL)]
   \<and> written (snd (setup_cgroups ''t1'' 536870912 50 host_fclose))
        ''/sys/fs/cgroup/minirun-t1/memory.max'' = None
   \<and> written (snd (setup_cgroups ''t1'' 536870912 50 host_fclose))
        ''/sys/fs/cgroup/minirun-t1/cpu.max'' = None"
  unfolding eval_defs Let_def by (simp add: eval_simps)

text \<open>
  The order of the child's calls on every host: first the calls that join the group
  (opening \<^verbatim>\<open>cgroup.procs\<close> and, when that succeeds, writing the process id and
  closing), then \<^verbatim>\<open>chroot\<close>. When \<^verbatim>\<open>chroot\<close> fails the child exits at once with
  status 1. Only when it has succeeded follow \<^verbatim>\<open>chdir\<close>, whatever it returns, then the
  mount of \<^verbatim>\<open>/proc\<close>, then \<^verbatim>\<open>execl\<close>, and after that nothing but the end of the
  process.
\<close>

lemma child_function_order:
  assumes "child_function config pr h = (r, pr', h')"
  shows "\<exists>J. join_calls (name config) pr J
     \<and> ((\<exists>e. calls_since h h' = J @ [(Chroot (rootfs_path config), Err e), (Exit 1, Ok 0)])
        \<or> (\<exists>d m x. calls_since h h' =
                J @ [(Chroot (rootfs_path config), Ok 0), (Chdir ''/'', d),
                     (Mount ''proc'' ''/proc'' ''proc'', m),
                     (Execl ''/bin/bash'' [''bash'', ''-c'', command config], x)]
                  @ (if x = Ok 0 then exit_calls r else [(Exit 1, Ok 0)])))"
proof -
  from child_function_shape [OF assms] obtain J where
    J: "join_calls (name config) pr J"
    and c: "(\<exists>e. calls_since h h' = J @ [(Chroot (rootfs_path config), Err e), (Exit 1, Ok 0)])
       \<or> (\<exists>d m e. calls_since h h' =
                        J @ [(Chroot (rootfs_path config), Ok 0), (Chdir ''/'', d),
                             (Mount ''proc'' ''/proc'' ''proc'', m), (bash_call config, Err e),
                             (Exit 1, Ok 0)])
       \<or> (\<exists>d m. calls_since h h' =
                        J @ [(Chroot (rootfs_path config), Ok 0), (Chdir ''/'', d),
                             (Mount ''proc'' ''/proc'' ''proc'', m), (bash_call config, Ok 0)]
                          @ exit_calls r)"
    by blast
  from c consider
      (a) e where "calls_since h h' = J @ [(Chroot (rootfs_path config), Err e), (Exit 1, Ok 0)]"
    | (b) d m e where "calls_since h h' =
                        J @ [(Chroot (rootfs_path config), Ok 0), (Chdir ''/'', d),
                             (Mount ''proc'' ''/proc'' ''proc'', m), (bash_call config, Err e),
                             (Exit 1, Ok 0)]"
    | (c) d m where "calls_since h h' =
                        J @ [(Chroot (rootfs_path config), Ok 0), (Chdir ''/'', d),
                             (Mount ''proc'' ''/proc'' ''proc'', m), (bash_call config, Ok 0)]
                          @ exit_calls r"
    by blast
  then have "(\<exists>e. calls_since h h' = J @ [(Chroot (rootfs_path config), Err e), (Exit 1, Ok 0)])
        \<or> (\<exists>d m x. calls_since h h' =
                J @ [(Chroot (rootfs_path config), Ok 0), (Chdir ''/'', d),
                     (Mount ''proc'' ''/proc'' ''proc'', m),
                     (Execl ''/bin/bash'' [''bash'', ''-c'', command config], x)]
                  @ (if x = Ok 0 then exit_calls r else [(Exit 1, Ok 0)]))"
  proof cases
    case a
    then show ?thesis by blast
  next
    case b
    then have "calls_since h h' =
                J @ [(Chroot (rootfs_path config), Ok 0), (Chdir ''/'', d),
                     (Mount ''proc'' ''/proc'' ''proc'', m),
                     (Execl ''/bin/bash'' [''bash'', ''-c'', command config], Err e)]
                  @ (if Err e = Ok 0 then exit_calls r else [(Exit 1, Ok 0)])"
      by (simp add: bash_call_def)
    then show ?thesis by blast
  next
    case c
    then have "calls_since h h' =
                J @ [(Chroot (rootfs_path config), Ok 0), (Chdir ''/'', d),
                     (Mount ''proc'' ''/proc'' ''proc'', m),
                     (Execl ''/bin/bash'' [''bash'', ''-c'', command config], Ok 0)]
                  @ (if Ok 0 = (Ok 0 :: ret) then exit_calls r else [(Exit 1, Ok 0)])"
      by (simp add: bash_call_def)
    then show ?thesis by blast
  qed
  with J show ?thesis by blast
qed

text \<open>
  Claim C6 fails on the code. The calls are made in the order the claim gives, but the
  mount of \<^verbatim>\<open>/proc\<close> does not wait for confinement to be in place: confinement is the
  change of root and the change of working directory, and the result of \<^verbatim>\<open>chdir\<close> is
  never read. In the run of the whole program below \<^verbatim>\<open>chdir\<close> fails, and the mount
  and the launch of the shell follow it; \<^verbatim>\<open>main\<close> returns 0.
\<close>

theorem mount_after_failed_chdir:
  "fst (main self0 argv_ok host_chdir) = Returned 0
   \<and> calls_since host_chdir (snd (main self0 argv_ok host_chdir)) =
     [(Access ''/sys/fs/cgroup/cgroup.controllers'', Ok 0),
      (Mkdir ''/sys/fs/cgroup/minirun-t1'', Ok 0),
      (Fopen ''/sys/fs/cgroup/cgroup.subtree_control'', Ok 1),
      (Fprintf ''/sys/fs/cgroup/cgroup.subtree_control'' ''+cpu +memory'', Ok 12),
      (Fclose ''/sys/fs/cgroup/cgroup.subtree_control'', Ok 0),
      (Fopen ''/sys/fs/cgroup/minirun-t1/memory.max'', Ok 1),
      (Fprintf ''/sys/fs/cgroup/minirun-t1/memory.max'' ''536870912'', Ok 9),
      (Fclose ''/sys/fs/cgroup/minirun-t1/memory.max'', Ok 0),
      (Fopen ''/sys/fs/cgroup/minirun-t1/cpu.max'', Ok 1),
      (Fprintf ''/sys/fs/cgroup/minirun-t1/cpu.max'' ''50000 100000'', Ok 12),
      (Fclose ''/sys/fs/cgroup/minirun-t1/cpu.max'', Ok 0),
      (Malloc 1048576, Ok 1), (Clone, Ok 4241),
      (Fopen ''/sys/fs/cgroup/minirun-t1/cgroup.procs'', Ok 1),
      (Fprintf ''/sys/fs/cgroup/minirun-t1/cgroup.procs'' ''1'', Ok 1),
      (Fclose ''/sys/fs/cgroup/minirun-t1/cgroup.procs'', Ok 0),
      (Chroot ''/srv/rootfs'', Ok 0), (Chdir ''/'', Err EIO),
      (Mount ''proc'' ''/proc'' ''proc'', Ok 0),
      (Execl ''/bin/bash'' [''bash'', ''-c'', ''/bin/true''], Ok 0),
      (Exit 7, Ok 0),
      (Waitpid 4241, Ok 4241), (Free, Ok 0),
      (Rmdir ''/sys/fs/cgroup/minirun-t1'', Ok 0)]"
  unfolding eval_defs Let_def by (simp add: eval_simps)

text \<open>
  Claim C7 fails on the code. \<^verbatim>\<open>child_function\<close> checks the result of \<^verbatim>\<open>chroot\<close>
  and returns 1 when it failed, but it does not look at the result of the \<^verbatim>\<open>chdir\<close>
  that follows. On a host where \<^verbatim>\<open>chroot\<close> succeeds and \<^verbatim>\<open>chdir\<close> fails, the child
  mounts \<^verbatim>\<open>/proc\<close> and starts the shell all the same, its working directory still the
  one it inherited, outside the new root.
\<close>

theorem chdir_failure_ignored:
  "calls_since host_chdir (snd (snd (child_function (config_of argv_ok) child0 host_chdir))) =
     [(Fopen ''/sys/fs/cgroup/minirun-t1/cgroup.procs'', Ok 1),
      (Fprintf ''/sys/fs/cgroup/minirun-t1/cgroup.procs'' ''1'', Ok 1),
      (Fclose ''/sys/fs/cgroup/minirun-t1/cgroup.procs'', Ok 0),
      (Chroot ''/srv/rootfs'', Ok 0), (Chdir ''/'', Err EIO),
      (Mount ''proc'' ''/proc'' ''proc'', Ok 0),
      (Execl ''/bin/bash'' [''bash'', ''-c'', ''/bin/true''], Ok 0),
      (Exit 7, Ok 0)]
   \<and> fst (child_function (config_of argv_ok) child0 host_chdir) = Terminates 7
   \<and> root (fst (snd (child_function (config_of argv_ok) child0 host_chdir))) = ''/srv/rootfs''
   \<and> cwd (fst (snd (child_function (config_of argv_ok) child0 host_chdir))) = ''/home/user''"
  unfolding eval_defs Let_def by (simp add: eval_simps)

text \<open>
  Claim C8. \<^verbatim>\<open>cleanup_cgroups\<close> returns nothing, so no failure of it can be reported.
  When the group directory does not exist, the call changes neither the paths nor the
  files of the host: its only call is an \<^verbatim>\<open>rmdir\<close> that fails and is ignored. So a
  second call after one that removed the directory changes nothing. In \<^verbatim>\<open>main\<close> the
  removal is the last call, and the exit code is decided by the calls before it: 0 when
  \<^verbatim>\<open>clone\<close> succeeded, 1 otherwise, whatever the removal returns.
\<close>

theorem cleanup_idempotent_nonfatal:
  "(cleanup_path nm \<notin> paths h \<longrightarrow>
        paths (cleanup_cgroups nm h) = paths h \<and> written (cleanup_cgroups nm h) = written h
      \<and> (\<exists>e. calls_since h (cleanup_cgroups nm h) = [(Rmdir (cleanup_path nm), Err e)]))
   \<and> ((Rmdir (cleanup_path nm), Ok 0) \<in> set (calls_since h (cleanup_cgroups nm h)) \<longrightarrow>
        cleanup_path nm \<notin> paths (cleanup_cgroups nm h)
      \<and> paths (cleanup_cgroups nm (cleanup_cgroups nm h)) = paths (cleanup_cgroups nm h)
      \<and> written (cleanup_cgroups nm (cleanup_cgroups nm h)) = written (cleanup_cgroups nm h))
   \<and> (4 \<le> length argv \<and> main self argv h = (Returned c, h') \<longrightarrow>
        (\<exists>ev r. calls_since h h' = ev @ [(Rmdir (cleanup_path (argv ! 1)), r)]
               \<and> c = (if \<exists>p. (Clone, Ok p) \<in> set ev then 0 else 1)))"
proof -
  have c1: "cleanup_path nm \<notin> paths h \<longrightarrow>
        paths (cleanup_cgroups nm h) = paths h \<and> written (cleanup_cgroups nm h) = written h
      \<and> (\<exists>e. calls_since h (cleanup_cgroups nm h) = [(Rmdir (cleanup_path nm), Err e)])"
    using cleanup_calls [of h nm] cleanup_cgroups_spec [of nm h] by auto
  have c2: "(Rmdir (cleanup_path nm), Ok 0) \<in> set (calls_since h (cleanup_cgroups nm h)) \<longrightarrow>
        cleanup_path nm \<notin> paths (cleanup_cgroups nm h)
      \<and> paths (cleanup_cgroups nm (cleanup_cgroups nm h)) = paths (cleanup_cgroups nm h)
      \<and> written (cleanup_cgroups nm (cleanup_cgroups nm h)) = written (cleanup_cgroups nm h)"
  proof
    assume a: "(Rmdir (cleanup_path nm), Ok 0) \<in> set (calls_since h (cleanup_cgroups nm h))"
    with cleanup_calls [of h nm]
    have gone: "cleanup_path nm \<notin> paths (cleanup_cgroups nm h)" by auto
    with cleanup_calls [of "cleanup_cgroups nm h" nm] cleanup_cgroups_spec [of nm "cleanup_cgroups nm h"]
    show "cleanup_path nm \<notin> paths (cleanup_cgroups nm h)
      \<and> paths (cleanup_cgroups nm (cleanup_cgroups nm h)) = paths (cleanup_cgroups nm h)
      \<and> written (cleanup_cgroups nm (cleanup_cgroups nm h)) = written (cleanup_cgroups nm h)"
      by auto
  qed
  have c3: "4 \<le> length argv \<and> main self argv h = (Returned c, h') \<longrightarrow>
        (\<exists>ev r. calls_since h h' = ev @ [(Rmdir (cleanup_path (argv ! 1)), r)]
               \<and> c = (if \<exists>p. (Clone, Ok p) \<in> set ev then 0 else 1))"
  proof
  assume "4 \<le> length argv \<and> main self argv h = (Returned c, h')"
  then have len: "4 \<le> length argv" and m: "main self argv h = (Returned c, h')" by simp_all
  from m len show "\<exists>ev r. calls_since h h' = ev @ [(Rmdir (cleanup_path (argv ! 1)), r)]
               \<and> c = (if \<exists>p. (Clone, Ok p) \<in> set ev then 0 else 1)"
  proof (cases rule: main_shape)
    case (fail_malloc ok h1 e r n)
    from not_in_file_calls [OF setup_calls_kind [OF fail_malloc(1)], of Clone]
    have "\<not> (\<exists>p. (Clone, Ok p) \<in> set (calls_since h h1 @ [(Malloc 1048576, Err e)]))"
      by simp
    moreover have "calls_since h h' = (calls_since h h1 @ [(Malloc 1048576, Err e)])
        @ [(Rmdir (cleanup_path (argv ! 1)), r)]"
      using fail_malloc(2) by simp
    ultimately show ?thesis using fail_malloc(3) by (metis outcome.inject)
  next
    case (fail_clone ok h1 e r n)
    from not_in_file_calls [OF setup_calls_kind [OF fail_clone(1)], of Clone]
    have "\<not> (\<exists>p. (Clone, Ok p) \<in> set (calls_since h h1
        @ [(Malloc 1048576, Ok 1), (Clone, Err e), (Free, Ok 0)]))"
      by simp
    moreover have "calls_since h h' = (calls_since h h1
        @ [(Malloc 1048576, Ok 1), (Clone, Err e), (Free, Ok 0)])
        @ [(Rmdir (cleanup_path (argv ! 1)), r)]"
      using fail_clone(2) by simp
    ultimately show ?thesis using fail_clone(3) by (metis outcome.inject)
  next
    case (hung ok h1 p h3 pr)
    then show ?thesis by simp
  next
    case (finished ok h1 p h3 s pr h4 w r)
    have "\<exists>q. (Clone, Ok q) \<in> set (calls_since h h1 @ [(Malloc 1048576, Ok 1), (Clone, Ok p)]
        @ calls_since h3 h4 @ [(Waitpid p, w), (Free, Ok 0)])"
      by (rule exI [of _ p]) simp
    moreover have "calls_since h h' = (calls_since h h1 @ [(Malloc 1048576, Ok 1), (Clone, Ok p)]
        @ calls_since h3 h4 @ [(Waitpid p, w), (Free, Ok 0)])
        @ [(Rmdir (cleanup_path (argv ! 1)), r)]"
      using finished(6) by simp
    ultimately show ?thesis using finished(7) by (metis outcome.inject)
  qed
  qed
  show ?thesis by (rule conjI [OF c1 conjI [OF c2 c3]])
qed

theorem cleanup_idempotent_nonfatal_witness:
  "paths (cleanup_cgroups ''t1'' host0) = paths host0
   \<and> written (cleanup_cgroups ''t1'' host0) = written host0
   \<and> ''/sys/fs/cgroup/minirun-t1'' \<in> paths host_reuse
   \<and> ''/sys/fs/cgroup/minirun-t1'' \<notin> paths (cleanup_cgroups ''t1'' host_reuse)
   \<and> paths (cleanup_cgroups ''t1'' (cleanup_cgroups ''t1'' host_reuse))
       = paths (cleanup_cgroups ''t1'' host_reuse)
   \<and> (\<exists>ev r. calls_since host0 (snd (main self0 argv_ok host0))
                = ev @ [(Rmdir ''/sys/fs/cgroup/minirun-t1'', r)]
             \<and> (0::int) = (if \<exists>p. (Clone, Ok p) \<in> set ev then 0 else 1))"
proof -
  have p: "cleanup_path ''t1'' = ''/sys/fs/cgroup/minirun-t1''"
    "cleanup_path (argv_ok ! 1) = ''/sys/fs/cgroup/minirun-t1''"
    by (simp_all only: argv_ok_nth cleanup_path_t1)
  have a: "cleanup_path ''t1'' \<notin> paths host0" by (simp add: p host0_def)
  have b: "(Rmdir (cleanup_path ''t1''), Ok 0)
      \<in> set (calls_since host_reuse (cleanup_cgroups ''t1'' host_reuse))"
    by (simp add: p cleanup_reuse_calls)
  have c: "4 \<le> length argv_ok
      \<and> main self0 argv_ok host0 = (Returned 0, snd (main self0 argv_ok host0))"
    using main_ok_result pair2 [of "main self0 argv_ok host0"] by (simp add: argv_ok_nth)
  have d: "''/sys/fs/cgroup/minirun-t1'' \<in> paths host_reuse" by (simp add: host_reuse_def)
  note t1 = cleanup_idempotent_nonfatal [of "''t1''" host0 argv_ok self0 0 "snd (main self0 argv_ok host0)"]
  note t2 = cleanup_idempotent_nonfatal [of "''t1''" host_reuse argv_ok self0 0 "snd (main self0 argv_ok host0)"]
  from mp [OF conjunct1 [OF t1] a]
  have w1: "paths (cleanup_cgroups ''t1'' host0) = paths host0"
    "written (cleanup_cgroups ''t1'' host0) = written host0" by simp_all
  from mp [OF conjunct1 [OF conjunct2 [OF t2]] b]
  have w2: "''/sys/fs/cgroup/minirun-t1'' \<notin> paths (cleanup_cgroups ''t1'' host_reuse)"
    "paths (cleanup_cgroups ''t1'' (cleanup_cgroups ''t1'' host_reuse))
       = paths (cleanup_cgroups ''t1'' host_reuse)"
    unfolding p by simp_all
  from mp [OF conjunct2 [OF conjunct2 [OF t1]] c]
  have w3: "\<exists>ev r. calls_since host0 (snd (main self0 argv_ok host0))
                = ev @ [(Rmdir ''/sys/fs/cgroup/minirun-t1'', r)]
             \<and> (0::int) = (if \<exists>p. (Clone, Ok p) \<in> set ev then 0 else 1)"
    unfolding p .
  show ?thesis by (intro conjI; fact w1 w2 w3 d)
qed

text \<open>
  Claim C9, as the code has it. \<^verbatim>\<open>main\<close> checks only the number of arguments: with
  fewer than three parameters after the program name it returns 1 at once, the host
  untouched (no call is made, so nothing is provisioned and nothing cleaned up).
\<close>

theorem usage_error:
  assumes "length argv < 4"
  shows "main self argv h = (Returned 1, h)"
  using assms by (rule main_usage)

theorem usage_error_witness:
  "length argv_short < 4 \<and> main self0 argv_short host0 = (Returned 1, host0)"
proof -
  have "length argv_short < 4" by (simp add: argv_short_def)
  then show ?thesis using usage_error [of argv_short self0 host0] by simp
qed

text \<open>
  Claim C9 as stated fails: the parameters that are present are not examined. With an
  empty name the program provisions the group \<^verbatim>\<open>/sys/fs/cgroup/minirun-\<close>, runs the
  container, removes the group and returns 0.
\<close>

theorem empty_name_counterexample:
  "fst (main self0 argv_noname host0) = Returned 0
   \<and> (Mkdir ''/sys/fs/cgroup/minirun-'', Ok 0)
        \<in> set (calls_since host0 (snd (main self0 argv_noname host0)))
   \<and> (Rmdir ''/sys/fs/cgroup/minirun-'', Ok 0)
        \<in> set (calls_since host0 (snd (main self0 argv_noname host0)))"
  by (simp add: main_noname_result main_noname_calls)




end
